theory Spec2Isabelle
  imports Main
begin

section \<open>Strings\<close>

text \<open>
  Go strings are byte sequences; they are modelled as \<open>string\<close> (a list of bytes).

  \<open>strings.TrimSpace\<close> removes the leading and the trailing white space of Unicode
  (\<open>unicode.IsSpace\<close>): the six ASCII characters tab, line feed, vertical tab, form feed,
  carriage return and space, and U+0085, U+00A0, U+1680, U+2000 to U+200A, U+2028,
  U+2029, U+202F, U+205F and U+3000. \<open>white_space\<close> lists their UTF-8 encodings. A
  string starts (ends) with a white-space character exactly when it starts (ends) with
  one of these byte sequences: the decoder accepts no other encoding of them, and an
  invalid byte decodes to U+FFFD, which is no white space. The leading white space is
  removed first, then the trailing one, as \<open>TrimFunc\<close> does.
\<close>

definition white_space :: "string list" where
  "white_space =
     [[CHR 0x09], [CHR 0x0A], [CHR 0x0B], [CHR 0x0C], [CHR 0x0D], [CHR 0x20],
      [CHR 0xC2, CHR 0x85], [CHR 0xC2, CHR 0xA0],
      [CHR 0xE1, CHR 0x9A, CHR 0x80],
      [CHR 0xE2, CHR 0x80, CHR 0x80], [CHR 0xE2, CHR 0x80, CHR 0x81],
      [CHR 0xE2, CHR 0x80, CHR 0x82], [CHR 0xE2, CHR 0x80, CHR 0x83],
      [CHR 0xE2, CHR 0x80, CHR 0x84], [CHR 0xE2, CHR 0x80, CHR 0x85],
      [CHR 0xE2, CHR 0x80, CHR 0x86], [CHR 0xE2, CHR 0x80, CHR 0x87],
      [CHR 0xE2, CHR 0x80, CHR 0x88], [CHR 0xE2, CHR 0x80, CHR 0x89],
      [CHR 0xE2, CHR 0x80, CHR 0x8A],
      [CHR 0xE2, CHR 0x80, CHR 0xA8], [CHR 0xE2, CHR 0x80, CHR 0xA9],
      [CHR 0xE2, CHR 0x80, CHR 0xAF],
      [CHR 0xE2, CHR 0x81, CHR 0x9F],
      [CHR 0xE3, CHR 0x80, CHR 0x80]]"

fun token_width :: "string list \<Rightarrow> string \<Rightarrow> nat" where
  \<comment> \<open>the length of the first of the tokens that the string starts with, 0 if there is none\<close>
  "token_width [] s = 0"
| "token_width (t # ts) s = (if take (length t) s = t then length t else token_width ts s)"

function strip_tokens :: "string list \<Rightarrow> string \<Rightarrow> string" where
  \<comment> \<open>removes leading tokens as long as there is one\<close>
  "strip_tokens ts [] = []"
| "strip_tokens ts (c # s) =
     (case token_width ts (c # s) of 0 \<Rightarrow> c # s | Suc n \<Rightarrow> strip_tokens ts (drop n s))"
  by pat_completeness auto
termination
  by (relation "measure (\<lambda>(ts, s). length s)") auto

definition TrimSpace :: "string \<Rightarrow> string" where
  "TrimSpace s =
     rev (strip_tokens (map rev white_space) (rev (strip_tokens white_space s)))"

definition Trim :: "string \<Rightarrow> char \<Rightarrow> string" where
  \<comment> \<open>\<open>strings.Trim(s, cutset)\<close> for a cutset of one byte\<close>
  "Trim s c = rev (dropWhile (\<lambda>x. x = c) (rev (dropWhile (\<lambda>x. x = c) s)))"

definition lower_char :: "char \<Rightarrow> char" where
  \<comment> \<open>the lower case of an ASCII letter; any other byte is unchanged\<close>
  "lower_char c =
     (case map_of (zip ''ABCDEFGHIJKLMNOPQRSTUVWXYZ'' ''abcdefghijklmnopqrstuvwxyz'') c of
        Some l \<Rightarrow> l
      | None \<Rightarrow> c)"

definition HasPrefix :: "string \<Rightarrow> string \<Rightarrow> bool" where
  "HasPrefix s p = (take (length p) s = p)"

definition Contains :: "string \<Rightarrow> char \<Rightarrow> bool" where
  \<comment> \<open>\<open>strings.Contains(s, substr)\<close> for a substring of one byte\<close>
  "Contains s c = (c \<in> set s)"

fun Split :: "string \<Rightarrow> char \<Rightarrow> string list" where
  \<comment> \<open>\<open>strings.Split(s, sep)\<close> for a separator of one byte; \<open>Split "" sep\<close> is \<open>[""]\<close>\<close>
  "Split [] sep = [[]]"
| "Split (x # xs) sep =
     (if x = sep then [] # Split xs sep
      else (case Split xs sep of [] \<Rightarrow> [[x]] | y # ys \<Rightarrow> (x # y) # ys))"

section \<open>Data model\<close>

text \<open>\<open>net/url.URL\<close>, \<open>oauth2.Endpoint\<close>, \<open>oauth2.Config\<close>, \<open>oauth2.Token\<close>.\<close>

record URL =
  Scheme :: string
  Opaque :: string
  User :: "string option"
  Host :: string
  Path :: string
  RawQuery :: string
  Fragment :: string

record Endpoint =
  AuthURL :: string
  TokenURL :: string
  AuthStyle :: nat

record Config =
  ClientID :: string
  ClientSecret :: string
  Endpoint :: Endpoint
  RedirectURL :: string
  Scopes :: "string list"

record Token =
  AccessToken :: string
  TokenType :: string
  RefreshToken :: string
  Expiry :: int

record GoogleUser =
  Email :: string
  Name :: string
  Picture :: string

text \<open>
  The service holds its OAuth configuration and its URLs by pointer. The store maps
  addresses to the values they point to; \<open>brk\<close> is the next free address, so that an
  allocation (\<open>clone := *p\<close> followed by \<open>&clone\<close>) writes at \<open>brk\<close> and nowhere else.
\<close>

record heap =
  urls :: "nat \<Rightarrow> URL"
  configs :: "nat \<Rightarrow> Config"
  brk :: nat

definition new_url :: "heap \<Rightarrow> URL \<Rightarrow> nat \<times> heap" where
  "new_url h u = (brk h, h\<lparr>urls := (urls h)(brk h := u), brk := Suc (brk h)\<rparr>)"

definition new_config :: "heap \<Rightarrow> Config \<Rightarrow> nat \<times> heap" where
  "new_config h c = (brk h, h\<lparr>configs := (configs h)(brk h := c), brk := Suc (brk h)\<rparr>)"

record Service =
  config :: nat
  publicBaseURL :: "nat option"
  callbackPath :: "nat option"
  localRedirectURL :: string
  logoutRedirectURL :: string
  LoginTemplate :: string

text \<open>
  Modelled from the spec: package \<open>constants\<close>, which names the session keys, is not
  among the sources. The spec lists five reserved keys, distinct string constants: the
  CSRF state (written \<open>"oauth_state"\<close> in the handlers), the user's email, name and
  picture, and the serialized token. They are the first five constructors of
  \<open>session_key\<close>; any other key of a session is an \<open>OtherKey\<close>. A session value that
  is not a string is an \<open>OtherValue\<close>. The cookie of a request is absent, or does not
  decode (with the error of the decoder), or holds the values of a session.
\<close>

datatype session_key =
  OAuthState | SessionKeyUserEmail | SessionKeyUserName | SessionKeyUserPicture
  | SessionKeyOAuthToken | OtherKey string

datatype session_value = StringValue string | OtherValue nat

datatype cookie =
  NoCookie | InvalidCookie string | ValidCookie "session_key \<Rightarrow> session_value option"

text \<open>
  \<open>http.Request\<close>: the header (canonical name to values), the \<open>Host\<close> field, whether
  \<open>TLS\<close> is non-nil, the \<open>URL\<close> pointer (nil is \<open>None\<close>) and the session cookie.
\<close>

record Request =
  Header :: "string \<Rightarrow> string list option"
  RequestHost :: string
  TLS :: bool
  RequestURL :: "URL option"
  SessionCookie :: cookie

definition Header_Get :: "(string \<Rightarrow> string list option) \<Rightarrow> string \<Rightarrow> string" where
  \<comment> \<open>\<open>http.Header.Get\<close>: the first value of the key, \<open>""\<close> when there is none\<close>
  "Header_Get hdr key = (case hdr key of None \<Rightarrow> [] | Some [] \<Rightarrow> [] | Some (v # _) \<Rightarrow> v)"

text \<open>
  Functions of the libraries the service calls (\<open>net/url\<close>, \<open>golang.org/x/oauth2\<close>,
  \<open>encoding/json\<close>, \<open>strings\<close>); they are not code of this repository and are taken
  as parameters. None of them writes to a value it is given: \<open>ResolveReference\<close>
  returns a new URL. \<open>Map_ToLower\<close> is \<open>strings.Map(unicode.ToLower, s)\<close>, the lower
  case by the case table of Unicode, which \<open>strings.ToLower\<close> applies to a string with
  a byte outside ASCII.
\<close>

record lib =
  url_Parse :: "string \<Rightarrow> string + URL"
  ResolveReference :: "URL \<Rightarrow> URL \<Rightarrow> URL"
  URL_String :: "URL \<Rightarrow> string"
  ParseQuery :: "string \<Rightarrow> string \<Rightarrow> string list option"
  AuthCodeURL :: "Config \<Rightarrow> string \<Rightarrow> (string \<times> string) list \<Rightarrow> string"
  json_Marshal :: "Token \<Rightarrow> string + string"
  json_Decode :: "string \<Rightarrow> string + GoogleUser"
  Map_ToLower :: "string \<Rightarrow> string"

text \<open>
  \<open>strings.ToLower\<close>: a string of ASCII bytes has its letters \<open>A\<close> to \<open>Z\<close> lowered
  byte by byte; any other string goes through the case table. The table maps
  character by character, so a lowered string that starts with the ASCII bytes of
  \<open>proto=\<close> or \<open>host=\<close> comes from a string of at least as many bytes, and the slice
  \<open>trimmedPair[len(prefix):]\<close> of \<open>extractForwardedDirective\<close> is in range.
\<close>

definition ToLower :: "lib \<Rightarrow> string \<Rightarrow> string" where
  "ToLower L s = (if list_all (\<lambda>c. \<not> digit7 c) s then map lower_char s else Map_ToLower L s)"

section \<open>Redirect resolution\<close>

definition headerForwarded :: string where "headerForwarded = ''Forwarded''"
definition headerXForwardedProto :: string where "headerXForwardedProto = ''X-Forwarded-Proto''"
definition headerXForwardedScheme :: string where "headerXForwardedScheme = ''X-Forwarded-Scheme''"
definition headerXForwardedHost :: string where "headerXForwardedHost = ''X-Forwarded-Host''"
definition headerXForwardedPort :: string where "headerXForwardedPort = ''X-Forwarded-Port''"
definition forwardedProtoPrefix :: string where "forwardedProtoPrefix = ''proto=''"
definition forwardedHostPrefix :: string where "forwardedHostPrefix = ''host=''"
definition headerValueSeparator :: char where "headerValueSeparator = CHR '',''"
definition forwardedPairSeparator :: char where "forwardedPairSeparator = CHR '';''"
definition defaultHTTPScheme :: string where "defaultHTTPScheme = ''https''"

fun firstHeaderValue_loop :: "string list \<Rightarrow> string" where
  "firstHeaderValue_loop [] = []"
| "firstHeaderValue_loop (segment # segments) =
     (let trimmed = TrimSpace segment
      in if trimmed \<noteq> [] then trimmed else firstHeaderValue_loop segments)"

definition firstHeaderValue :: "string \<Rightarrow> string" where
  "firstHeaderValue headerValue =
     (if headerValue = [] then []
      else firstHeaderValue_loop (Split headerValue headerValueSeparator))"

text \<open>
  The inner loop of \<open>extractForwardedDirective\<close> over the pairs of one directive:
  \<open>Some value\<close> is the \<open>return value\<close>, \<open>None\<close> is falling out of the loop.
\<close>

fun extractForwardedDirective_pairs :: "lib \<Rightarrow> string \<Rightarrow> string list \<Rightarrow> string option" where
  "extractForwardedDirective_pairs L prefix [] = None"
| "extractForwardedDirective_pairs L prefix (pair # pairs) =
     (let trimmedPair = TrimSpace pair
      in if trimmedPair = [] then extractForwardedDirective_pairs L prefix pairs
         else if \<not> HasPrefix (ToLower L trimmedPair) prefix
           then extractForwardedDirective_pairs L prefix pairs
         else (let value = Trim (TrimSpace (drop (length prefix) trimmedPair)) (CHR 0x22)
               in if value \<noteq> [] then Some value
                  else extractForwardedDirective_pairs L prefix pairs))"

fun extractForwardedDirective_loop :: "lib \<Rightarrow> string \<Rightarrow> string list \<Rightarrow> string" where
  "extractForwardedDirective_loop L prefix [] = []"
| "extractForwardedDirective_loop L prefix (directive # directives) =
     (let trimmedDirective = TrimSpace directive
      in if trimmedDirective = [] then extractForwardedDirective_loop L prefix directives
         else (case extractForwardedDirective_pairs L prefix
                      (Split trimmedDirective forwardedPairSeparator) of
                 Some value \<Rightarrow> value
               | None \<Rightarrow> extractForwardedDirective_loop L prefix directives))"

definition extractForwardedDirective :: "lib \<Rightarrow> string \<Rightarrow> string \<Rightarrow> string" where
  "extractForwardedDirective L headerValue prefix =
     (if headerValue = [] then []
      else extractForwardedDirective_loop L prefix (Split headerValue headerValueSeparator))"

definition resolveScheme :: "lib \<Rightarrow> heap \<Rightarrow> Service \<Rightarrow> Request \<Rightarrow> string" where
  "resolveScheme L h serviceInstance request =
     (let forwarded = extractForwardedDirective L (Header_Get (Header request) headerForwarded)
                        forwardedProtoPrefix
      in if forwarded \<noteq> [] then ToLower L forwarded
      else let proto = firstHeaderValue (Header_Get (Header request) headerXForwardedProto)
      in if proto \<noteq> [] then ToLower L proto
      else let scheme = firstHeaderValue (Header_Get (Header request) headerXForwardedScheme)
      in if scheme \<noteq> [] then ToLower L scheme
      else if TLS request then defaultHTTPScheme
      else if (case RequestURL request of None \<Rightarrow> False | Some u \<Rightarrow> Scheme u \<noteq> [])
        then (case RequestURL request of None \<Rightarrow> [] | Some u \<Rightarrow> ToLower L (Scheme u))
      else if (case publicBaseURL serviceInstance of
                 None \<Rightarrow> False | Some p \<Rightarrow> Scheme (urls h p) \<noteq> [])
        then (case publicBaseURL serviceInstance of
                None \<Rightarrow> [] | Some p \<Rightarrow> ToLower L (Scheme (urls h p)))
      else defaultHTTPScheme)"

definition resolveHost :: "lib \<Rightarrow> heap \<Rightarrow> Service \<Rightarrow> Request \<Rightarrow> string" where
  "resolveHost L h serviceInstance request =
     (let forwarded = extractForwardedDirective L (Header_Get (Header request) headerForwarded)
                        forwardedHostPrefix
      in if forwarded \<noteq> [] then forwarded
      else let host = firstHeaderValue (Header_Get (Header request) headerXForwardedHost)
      in if host \<noteq> [] then host
      else if RequestHost request \<noteq> [] then RequestHost request
      else (case publicBaseURL serviceInstance of
              Some p \<Rightarrow> Host (urls h p)
            | None \<Rightarrow> []))"

definition resolvePort :: "Request \<Rightarrow> string" where
  "resolvePort request = firstHeaderValue (Header_Get (Header request) headerXForwardedPort)"

text \<open>
  \<open>effectiveBaseURL\<close> returns a pointer: nil, the service's own \<open>publicBaseURL\<close>, or
  the address of a fresh copy whose scheme and host are overwritten.
\<close>

definition effectiveBaseURL ::
  "lib \<Rightarrow> heap \<Rightarrow> Service \<Rightarrow> Request option \<Rightarrow> nat option \<times> heap" where
  "effectiveBaseURL L h serviceInstance request =
     (case publicBaseURL serviceInstance of
        None \<Rightarrow> (None, h)
      | Some base \<Rightarrow>
          (case request of
             None \<Rightarrow> (Some base, h)
           | Some req \<Rightarrow>
               (let scheme = resolveScheme L h serviceInstance req;
                    host = resolveHost L h serviceInstance req
                in if host = [] then (Some base, h)
                   else (let port = resolvePort req;
                             host' = (if port \<noteq> [] \<and> \<not> Contains host (CHR '':'')
                                      then host @ '':'' @ port else host);
                             baseCopy = (urls h base)\<lparr>Scheme := scheme, Host := host'\<rparr>;
                             (p, h') = new_url h baseCopy
                         in (Some p, h')))))"

definition redirectURLForRequest ::
  "lib \<Rightarrow> heap \<Rightarrow> Service \<Rightarrow> Request option \<Rightarrow> string \<times> heap" where
  "redirectURLForRequest L h serviceInstance request =
     (case callbackPath serviceInstance of
        None \<Rightarrow> (RedirectURL (configs h (config serviceInstance)), h)
      | Some cb \<Rightarrow>
          (case effectiveBaseURL L h serviceInstance request of
             (None, h1) \<Rightarrow> (RedirectURL (configs h1 (config serviceInstance)), h1)
           | (Some baseURL, h1) \<Rightarrow>
               (let (callback, h2) =
                      new_url h1 (ResolveReference L (urls h1 baseURL) (urls h1 cb))
                in (URL_String L (urls h2 callback), h2))))"

definition authorizationConfigForRequest ::
  "lib \<Rightarrow> heap \<Rightarrow> Service \<Rightarrow> Request option \<Rightarrow> nat \<times> heap" where
  "authorizationConfigForRequest L h serviceInstance request =
     (let clone = configs h (config serviceInstance);
          (redirect, h1) = redirectURLForRequest L h serviceInstance request
      in new_config h1 (clone\<lparr>RedirectURL := redirect\<rparr>))"

section \<open>Constants, sessions and the environment\<close>

text \<open>
  Modelled from the spec: package \<open>constants\<close> is not among the sources. The spec fixes
  the routes \<open>/login\<close> (\<open>constants.LoginPath\<close>) and \<open>/auth/google/callback\<close>
  (\<open>constants.CallbackPath\<close>).
\<close>

definition LoginPath :: string where "LoginPath = ''/login''"
definition CallbackPath :: string where "CallbackPath = ''/auth/google/callback''"

text \<open>
  A session of the library \<open>gorilla/sessions\<close>: its values and the \<open>MaxAge\<close> of its
  options. The handlers hold a \<open>*sessions.CookieStore\<close>, whose \<open>Get\<close> never returns a
  nil session: without a cookie it returns a new empty session, and with a cookie that
  does not decode it returns a new empty session together with the decoding error. The
  session's options are a copy of the store's, so that setting \<open>MaxAge\<close> on a session
  leaves the store alone. \<open>Save\<close> encodes the session and, only if that succeeds,
  writes the cookie.
\<close>

record Session =
  Values :: "session_key \<Rightarrow> session_value option"
  MaxAge :: int

record CookieStore =
  DefaultMaxAge :: int

definition store_Get :: "CookieStore \<Rightarrow> Request \<Rightarrow> Session \<times> string option" where
  "store_Get st request =
     (case SessionCookie request of
        NoCookie \<Rightarrow> (\<lparr>Values = (\<lambda>k. None), MaxAge = DefaultMaxAge st\<rparr>, None)
      | InvalidCookie e \<Rightarrow> (\<lparr>Values = (\<lambda>k. None), MaxAge = DefaultMaxAge st\<rparr>, Some e)
      | ValidCookie vs \<Rightarrow> (\<lparr>Values = vs, MaxAge = DefaultMaxAge st\<rparr>, None))"

record HTTPResponse =
  StatusCode :: nat
  Body :: string

text \<open>
  What the outside world answers during one request: the random source (already
  base64-encoded), the provider's token endpoint, the profile endpoint, and whether the
  cookie store can encode the session. An error carries its message.
\<close>

record env =
  rand_Read :: "string + string"
  Exchange :: "Config \<Rightarrow> string \<Rightarrow> string + Token"
  userinfo_Get :: "Token \<Rightarrow> string + HTTPResponse"
  Save :: "Session \<Rightarrow> string option"

datatype call =
  CallRandRead | CallExchange Config string | CallUserInfo Token | CallSave Session

datatype Response = HttpRedirect string nat | HttpError string nat | Panicked

text \<open>
  The outcome of a handler: the response written, the session as it is in memory when
  the handler returns, the session written to the cookie by a successful \<open>Save\<close> (if
  any), and the external calls made, in order. Log lines are left out.
\<close>

record Result =
  response :: Response
  session :: Session
  set_cookie :: "Session option"
  trace :: "call list"

definition GenerateState :: "env \<Rightarrow> string + string" where
  "GenerateState E =
     (case rand_Read E of
        Inl readError \<Rightarrow> Inl (''failed to generate state: '' @ readError)
      | Inr encoded \<Rightarrow> Inr encoded)"

definition GetUser :: "lib \<Rightarrow> env \<Rightarrow> Token \<Rightarrow> string + GoogleUser" where
  \<comment> \<open>the message for a status other than 200 is given without the number\<close>
  "GetUser L E oauthToken =
     (case userinfo_Get E oauthToken of
        Inl httpError \<Rightarrow> Inl (''failed to get user info: '' @ httpError)
      | Inr httpResponse \<Rightarrow>
          (if StatusCode httpResponse \<noteq> 200 then Inl ''google API returned status''
           else (case json_Decode L (Body httpResponse) of
                   Inl decodeError \<Rightarrow> Inl (''failed to decode user info: '' @ decodeError)
                 | Inr user \<Rightarrow> Inr user)))"

section \<open>Construction\<close>

definition ScopeEmail :: string where "ScopeEmail = ''email''"
definition ScopeProfile :: string where "ScopeProfile = ''profile''"
definition DefaultScopes :: "string list" where "DefaultScopes = [ScopeProfile, ScopeEmail]"

definition ScopeStrings :: "string list \<Rightarrow> string list" where
  "ScopeStrings scopes = map (\<lambda>s. s) scopes"

type_synonym ServiceOption = "Service \<Rightarrow> Service"

definition WithLogoutRedirectURL :: "string \<Rightarrow> ServiceOption" where
  "WithLogoutRedirectURL redirectURL =
     (\<lambda>serviceInstance.
        let trimmedRedirect = TrimSpace redirectURL
        in if trimmedRedirect = [] then serviceInstance
           else serviceInstance\<lparr>logoutRedirectURL := trimmedRedirect\<rparr>)"

fun apply_options :: "ServiceOption option list \<Rightarrow> Service \<Rightarrow> Service" where
  "apply_options [] serviceInstance = serviceInstance"
| "apply_options (None # options) serviceInstance = apply_options options serviceInstance"
| "apply_options (Some option # options) serviceInstance =
     apply_options options (option serviceInstance)"

datatype NewServiceResult = ServiceError string | ServicePanic | ServiceOk Service heap

definition NewService ::
  "lib \<Rightarrow> heap \<Rightarrow> Endpoint \<Rightarrow> string \<Rightarrow> string \<Rightarrow> string \<Rightarrow> string \<Rightarrow> string list \<Rightarrow> string
     \<Rightarrow> ServiceOption option list \<Rightarrow> NewServiceResult" where
  "NewService L h google_Endpoint clientID clientSecret googleOAuthBase localRedirect scopes
       customLoginTemplate options =
     (if clientID = [] \<or> clientSecret = [] then ServiceError ''missing Google OAuth credentials''
      else (case url_Parse L googleOAuthBase of
              Inl googleOAuthBaseErr \<Rightarrow> ServiceError ''invalid Google OAuth base URL''
            | Inr base \<Rightarrow>
                (case url_Parse L CallbackPath of
                   Inl _ \<Rightarrow> ServicePanic
                 | Inr rel \<Rightarrow>
                     (let (baseURL, h1) = new_url h base;
                          (relativePath, h2) = new_url h1 rel;
                          (redirectURL, h3) = new_url h2 (ResolveReference L base rel);
                          scopes' = (if length scopes = 0 then ScopeStrings DefaultScopes
                                     else scopes);
                          (baseConfig, h4) = new_config h3
                             \<lparr>ClientID = clientID, ClientSecret = clientSecret,
                              Endpoint = google_Endpoint,
                              RedirectURL = URL_String L (urls h3 redirectURL),
                              Scopes = scopes'\<rparr>;
                          serviceInstance =
                             \<lparr>config = baseConfig, publicBaseURL = Some baseURL,
                              callbackPath = Some relativePath,
                              localRedirectURL = localRedirect,
                              logoutRedirectURL = LoginPath,
                              LoginTemplate = customLoginTemplate\<rparr>
                      in ServiceOk (apply_options options serviceInstance) h4))))"

section \<open>Handlers\<close>

record Handlers =
  service :: Service
  store :: CookieStore

definition request_config :: "lib \<Rightarrow> heap \<Rightarrow> Service \<Rightarrow> Request \<Rightarrow> Config" where
  \<comment> \<open>the configuration \<open>authorizationConfigForRequest(request)\<close> points to\<close>
  "request_config L h serviceInstance request =
     (let (oauthConfig, h') = authorizationConfigForRequest L h serviceInstance (Some request)
      in configs h' oauthConfig)"

definition Values_Get :: "(string \<Rightarrow> string list option) \<Rightarrow> string \<Rightarrow> string" where
  \<comment> \<open>\<open>url.Values.Get\<close>\<close>
  "Values_Get vs key = (case vs key of None \<Rightarrow> [] | Some [] \<Rightarrow> [] | Some (v # _) \<Rightarrow> v)"

definition Login :: "lib \<Rightarrow> env \<Rightarrow> heap \<Rightarrow> Handlers \<Rightarrow> Request \<Rightarrow> Result" where
  "Login L E h handlersInstance request =
     (case GenerateState E of
        Inl stateError \<Rightarrow>
          \<lparr>response = HttpError ''Internal Server Error'' 500,
           session = fst (store_Get (store handlersInstance) request),
           set_cookie = None, trace = [CallRandRead]\<rparr>
      | Inr stateValue \<Rightarrow>
          (let loaded = fst (store_Get (store handlersInstance) request);
               webSession = loaded\<lparr>Values := (Values loaded)(OAuthState \<mapsto> StringValue stateValue)\<rparr>
           in (case Save E webSession of
                 Some sessionSaveError \<Rightarrow>
                   \<lparr>response = HttpError ''Internal Server Error'' 500,
                    session = webSession, set_cookie = None,
                    trace = [CallRandRead, CallSave webSession]\<rparr>
               | None \<Rightarrow>
                   (let oauthConfig = request_config L h (service handlersInstance) request;
                        authorizationURL = AuthCodeURL L oauthConfig stateValue
                           [(''access_type'', ''offline''), (''prompt'', ''consent'')]
                    in \<lparr>response = HttpRedirect authorizationURL 302,
                        session = webSession, set_cookie = Some webSession,
                        trace = [CallRandRead, CallSave webSession]\<rparr>))))"

text \<open>
  \<open>Callback\<close> is split at its two join points: \<open>Callback_profile\<close> is the profile
  or sentinel branch (it either returns a response or goes on with the session it
  wrote to), \<open>Callback_store\<close> is the storing of the token, the save and the final
  redirect.
\<close>

fun hasProfileScope :: "string list \<Rightarrow> bool" where
  "hasProfileScope [] = False"
| "hasProfileScope (scope # scopes) =
     (if scope = ScopeProfile \<or> scope = ScopeEmail then True else hasProfileScope scopes)"

definition Callback_profile ::
  "lib \<Rightarrow> env \<Rightarrow> Session \<Rightarrow> Config \<Rightarrow> Token \<Rightarrow> call list \<Rightarrow> Result + Session \<times> call list" where
  "Callback_profile L E webSession oauthConfig oauthToken calls =
     (if hasProfileScope (Scopes oauthConfig) then
        (case GetUser L E oauthToken of
           Inl getUserError \<Rightarrow>
             Inl \<lparr>response = HttpRedirect (LoginPath @ ''?error=user_info_failed'') 302,
                  session = webSession, set_cookie = None,
                  trace = calls @ [CallUserInfo oauthToken]\<rparr>
         | Inr googleUser \<Rightarrow>
             Inr (webSession\<lparr>Values := (Values webSession)
                    (SessionKeyUserEmail \<mapsto> StringValue (Email googleUser),
                     SessionKeyUserName \<mapsto> StringValue (Name googleUser),
                     SessionKeyUserPicture \<mapsto> StringValue (Picture googleUser))\<rparr>,
                  calls @ [CallUserInfo oauthToken]))
      else
        Inr (webSession\<lparr>Values := (Values webSession)
               (SessionKeyUserEmail \<mapsto> StringValue ''authenticated_api_user'')\<rparr>,
             calls))"

definition Callback_store ::
  "lib \<Rightarrow> env \<Rightarrow> Handlers \<Rightarrow> Session \<Rightarrow> Token \<Rightarrow> call list \<Rightarrow> Result" where
  "Callback_store L E handlersInstance webSession oauthToken calls =
     (let webSession' =
            (case json_Marshal L oauthToken of
               Inr tokenBytes \<Rightarrow>
                 webSession\<lparr>Values := (Values webSession)
                    (SessionKeyOAuthToken \<mapsto> StringValue tokenBytes)\<rparr>
             | Inl err \<Rightarrow> webSession)
      in case Save E webSession' of
           Some sessionSaveError \<Rightarrow>
             \<lparr>response = HttpRedirect (LoginPath @ ''?error=session_save_failed'') 302,
              session = webSession', set_cookie = None,
              trace = calls @ [CallSave webSession']\<rparr>
         | None \<Rightarrow>
             \<lparr>response = HttpRedirect (localRedirectURL (service handlersInstance)) 302,
              session = webSession', set_cookie = Some webSession',
              trace = calls @ [CallSave webSession']\<rparr>)"

definition Callback :: "lib \<Rightarrow> env \<Rightarrow> heap \<Rightarrow> Handlers \<Rightarrow> Request \<Rightarrow> Result" where
  "Callback L E h handlersInstance request =
     (let webSession = fst (store_Get (store handlersInstance) request)
      in case Values webSession OAuthState of
        None \<Rightarrow>
          \<lparr>response = HttpRedirect (LoginPath @ ''?error=missing_state'') 302,
           session = webSession, set_cookie = None, trace = []\<rparr>
      | Some (OtherValue _) \<Rightarrow>
          \<lparr>response = HttpRedirect (LoginPath @ ''?error=missing_state'') 302,
           session = webSession, set_cookie = None, trace = []\<rparr>
      | Some (StringValue storedStateValue) \<Rightarrow>
       (case RequestURL request of
          None \<Rightarrow> \<lparr>response = Panicked, session = webSession, set_cookie = None, trace = []\<rparr>
        | Some u \<Rightarrow>
         (let receivedStateValue = Values_Get (ParseQuery L (RawQuery u)) ''state''
          in if storedStateValue \<noteq> receivedStateValue then
               \<lparr>response = HttpRedirect (LoginPath @ ''?error=invalid_state'') 302,
                session = webSession, set_cookie = None, trace = []\<rparr>
          else let authorizationCode = Values_Get (ParseQuery L (RawQuery u)) ''code''
          in if authorizationCode = [] then
               \<lparr>response = HttpRedirect (LoginPath @ ''?error=missing_code'') 302,
                session = webSession, set_cookie = None, trace = []\<rparr>
          else let oauthConfig = request_config L h (service handlersInstance) request
          in case Exchange E oauthConfig authorizationCode of
               Inl tokenExchangeError \<Rightarrow>
                 \<lparr>response = HttpRedirect (LoginPath @ ''?error=token_exchange_failed'') 302,
                  session = webSession, set_cookie = None,
                  trace = [CallExchange oauthConfig authorizationCode]\<rparr>
             | Inr oauthToken \<Rightarrow>
                 if RefreshToken oauthToken = [] then
                   (let r = Login L E h handlersInstance request
                    in r\<lparr>trace := CallExchange oauthConfig authorizationCode # trace r\<rparr>)
                 else (case Callback_profile L E webSession oauthConfig oauthToken
                              [CallExchange oauthConfig authorizationCode] of
                         Inl r \<Rightarrow> r
                       | Inr (webSession', calls) \<Rightarrow>
                           Callback_store L E handlersInstance webSession' oauthToken calls))))"

definition Logout :: "env \<Rightarrow> Handlers \<Rightarrow> Request \<Rightarrow> Result" where
  "Logout E handlersInstance request =
     (let loaded = fst (store_Get (store handlersInstance) request);
          webSession = loaded\<lparr>MaxAge := - 1\<rparr>
      in case Save E webSession of
           Some webSessionSaveError \<Rightarrow>
             \<lparr>response = HttpError webSessionSaveError 500,
              session = webSession, set_cookie = None, trace = [CallSave webSession]\<rparr>
         | None \<Rightarrow>
             \<lparr>response = HttpRedirect LoginPath 302,
              session = webSession, set_cookie = Some webSession,
              trace = [CallSave webSession]\<rparr>)"

section \<open>Notions used to state the properties\<close>

text \<open>
  The priority order of the spec, in its own words: the first non-empty token of a
  comma-separated header value; the value of the first \<open>key=value\<close> pair, over all
  semicolon-separated pairs of all comma-separated groups in order, whose key is the
  wanted one and whose value is not empty; and the candidates for the scheme, highest
  priority first.
\<close>

definition first_nonempty :: "string list \<Rightarrow> string" where
  "first_nonempty xs = (case filter (\<lambda>s. s \<noteq> []) xs of [] \<Rightarrow> [] | x # _ \<Rightarrow> x)"

definition first_token :: "string \<Rightarrow> string" where
  "first_token v = first_nonempty (map TrimSpace (Split v (CHR '','')))"

definition directive_value :: "lib \<Rightarrow> string \<Rightarrow> string \<Rightarrow> string" where
  "directive_value L prefix pair =
     (let t = TrimSpace pair
      in if HasPrefix (ToLower L t) prefix
         then Trim (TrimSpace (drop (length prefix) t)) (CHR 0x22) else [])"

definition forwarded_directive :: "lib \<Rightarrow> string \<Rightarrow> string \<Rightarrow> string" where
  "forwarded_directive L v prefix =
     first_nonempty (map (directive_value L prefix)
       (concat (map (\<lambda>g. Split (TrimSpace g) (CHR '';'')) (Split v (CHR '','')))))"

definition scheme_candidates :: "lib \<Rightarrow> heap \<Rightarrow> Service \<Rightarrow> Request \<Rightarrow> string list" where
  "scheme_candidates L h svc req =
     [forwarded_directive L (Header_Get (Header req) ''Forwarded'') ''proto='',
      first_token (Header_Get (Header req) ''X-Forwarded-Proto''),
      first_token (Header_Get (Header req) ''X-Forwarded-Scheme''),
      (if TLS req then ''https'' else []),
      (case RequestURL req of None \<Rightarrow> [] | Some u \<Rightarrow> Scheme u),
      (case publicBaseURL svc of None \<Rightarrow> [] | Some p \<Rightarrow> Scheme (urls h p)),
      ''https'']"

text \<open>
  The redirect to the login path that carries an error value, the keys of the identity
  and of the token, and the cookie the client holds after a handler has run.
\<close>

definition error_redirect :: "string \<Rightarrow> Response" where
  "error_redirect e = HttpRedirect (LoginPath @ ''?error='' @ e) 302"

definition identity_token_keys :: "session_key list" where
  "identity_token_keys =
     [SessionKeyUserEmail, SessionKeyUserName, SessionKeyUserPicture, SessionKeyOAuthToken]"

definition cookie_value :: "cookie \<Rightarrow> session_key \<Rightarrow> session_value option" where
  "cookie_value c k = (case c of ValidCookie vs \<Rightarrow> vs k | NoCookie \<Rightarrow> None | InvalidCookie _ \<Rightarrow> None)"

definition persisted_after :: "Request \<Rightarrow> Result \<Rightarrow> cookie" where
  "persisted_after request r =
     (case set_cookie r of None \<Rightarrow> SessionCookie request | Some s \<Rightarrow> ValidCookie (Values s))"

definition is_status_500 :: "Response \<Rightarrow> bool" where
  "is_status_500 resp = (case resp of HttpError _ code \<Rightarrow> code = 500 | HttpRedirect _ _ \<Rightarrow> False | Panicked \<Rightarrow> False)"

definition is_redirect_302 :: "Response \<Rightarrow> bool" where
  "is_redirect_302 resp = (case resp of HttpRedirect _ code \<Rightarrow> code = 302 | HttpError _ _ \<Rightarrow> False | Panicked \<Rightarrow> False)"

text \<open>
  The same environment and library with the text of every error replaced: what a
  handler returns must not change if no error text reaches the response.
\<close>

definition retext :: "(string \<Rightarrow> string) \<Rightarrow> string + 'a \<Rightarrow> string + 'a" where
  "retext f x = (case x of Inl e \<Rightarrow> Inl (f e) | Inr v \<Rightarrow> Inr v)"

definition retext_env :: "(string \<Rightarrow> string) \<Rightarrow> env \<Rightarrow> env" where
  "retext_env f E =
     \<lparr>rand_Read = retext f (rand_Read E),
      Exchange = (\<lambda>c code. retext f (Exchange E c code)),
      userinfo_Get = (\<lambda>t. retext f (userinfo_Get E t)),
      Save = (\<lambda>s. map_option f (Save E s))\<rparr>"

definition retext_lib :: "(string \<Rightarrow> string) \<Rightarrow> lib \<Rightarrow> lib" where
  "retext_lib f L =
     L\<lparr>json_Marshal := (\<lambda>t. retext f (json_Marshal L t)),
       json_Decode := (\<lambda>b. retext f (json_Decode L b))\<rparr>"

section \<open>Fixtures\<close>

text \<open>
  Concrete values in the manner of the repository's handler tests: a service for
  \<open>http://localhost:8080\<close> with the default scopes, a request for host
  \<open>loopaware.mprlab.com\<close>, a callback request whose cookie holds the state \<open>s123\<close>, a
  provider that answers with a refresh token, and stand-ins for the libraries.
\<close>

definition test_base :: URL where
  "test_base = \<lparr>Scheme = ''http'', Opaque = [], User = None, Host = ''localhost:8080'',
                 Path = [], RawQuery = [], Fragment = []\<rparr>"

definition test_callback :: URL where
  "test_callback = \<lparr>Scheme = [], Opaque = [], User = None, Host = [],
                     Path = ''/auth/google/callback'', RawQuery = [], Fragment = []\<rparr>"

definition test_endpoint :: Endpoint where
  "test_endpoint = \<lparr>AuthURL = ''https://provider/auth'', TokenURL = ''https://provider/token'',
                     AuthStyle = 0\<rparr>"

definition test_config :: "string list \<Rightarrow> Config" where
  "test_config scopes =
     \<lparr>ClientID = ''id'', ClientSecret = ''secret'', Endpoint = test_endpoint,
      RedirectURL = ''http://localhost:8080/auth/google/callback'', Scopes = scopes\<rparr>"

definition test_heap :: "string list \<Rightarrow> heap" where
  "test_heap scopes =
     \<lparr>urls = (\<lambda>p. if p = 0 then test_base else test_callback),
      configs = (\<lambda>p. test_config scopes), brk = 4\<rparr>"

definition test_service :: Service where
  "test_service =
     \<lparr>config = 3, publicBaseURL = Some 0, callbackPath = Some 1,
      localRedirectURL = ''/dashboard'', logoutRedirectURL = ''/login'', LoginTemplate = []\<rparr>"

definition landing_service :: Service where
  "landing_service = test_service\<lparr>logoutRedirectURL := ''/landing''\<rparr>"

definition test_handlers :: Handlers where
  "test_handlers = \<lparr>service = test_service, store = \<lparr>DefaultMaxAge = 86400\<rparr>\<rparr>"

definition test_url :: "string \<Rightarrow> URL" where
  "test_url query = \<lparr>Scheme = [], Opaque = [], User = None, Host = [],
                      Path = ''/auth/google/callback'', RawQuery = query, Fragment = []\<rparr>"

definition test_request :: "(string \<times> string) list \<Rightarrow> string \<Rightarrow> cookie \<Rightarrow> Request" where
  "test_request hdrs query c =
     \<lparr>Header = map_of (map (\<lambda>(k, v). (k, [v])) hdrs),
      RequestHost = ''loopaware.mprlab.com'', TLS = False,
      RequestURL = Some (test_url query), SessionCookie = c\<rparr>"

definition test_cookie :: cookie where
  "test_cookie =
     ValidCookie (map_of [(OAuthState, StringValue ''s123''),
                          (SessionKeyUserEmail, StringValue ''old@example.com'')])"

definition test_token :: "string \<Rightarrow> Token" where
  "test_token refresh =
     \<lparr>AccessToken = ''abc'', TokenType = ''bearer'', RefreshToken = refresh, Expiry = 0\<rparr>"

definition test_user :: GoogleUser where
  "test_user = \<lparr>Email = ''e@example.com'', Name = ''tester'', Picture = ''pic''\<rparr>"

definition test_lib :: lib where
  "test_lib =
     \<lparr>url_Parse = (\<lambda>s. if s = ''http://localhost:8080'' then Inr test_base
                         else if s = ''/auth/google/callback'' then Inr test_callback
                         else Inl ''parse error''),
      ResolveReference = (\<lambda>b r. b\<lparr>Path := Path r\<rparr>),
      URL_String = (\<lambda>u. Scheme u @ ''://'' @ Host u @ Path u),
      ParseQuery = (\<lambda>q. if q = ''state=s123&code=c1''
                            then map_of [(''state'', [''s123'']), (''code'', [''c1''])]
                          else if q = ''state=zzz&code=c1''
                            then map_of [(''state'', [''zzz'']), (''code'', [''c1''])]
                          else (\<lambda>k. None)),
      AuthCodeURL = (\<lambda>c st opts. AuthURL (Endpoint c) @ ''?state='' @ st
                                   @ ''&redirect_uri='' @ RedirectURL c),
      json_Marshal = (\<lambda>t. Inr (''{access_token:'' @ AccessToken t @ '',refresh_token:''
                                 @ RefreshToken t @ ''}'')),
      json_Decode = (\<lambda>b. if b = ''user'' then Inr test_user else Inl ''unexpected end of JSON input''),
      Map_ToLower = (\<lambda>s. s)\<rparr>"

definition test_env :: "string \<Rightarrow> env" where
  "test_env refresh =
     \<lparr>rand_Read = Inr ''c3RhdGU='',
      Exchange = (\<lambda>c code. if code = ''c1'' then Inr (test_token refresh)
                            else Inl ''oauth2: cannot fetch token''),
      userinfo_Get = (\<lambda>t. Inr \<lparr>StatusCode = 200, Body = ''user''\<rparr>),
      Save = (\<lambda>s. None)\<rparr>"

definition save_error :: string where
  "save_error = ''securecookie: the value is too long''"

definition test_callback_request :: Request where
  "test_callback_request = test_request [] ''state=s123&code=c1'' test_cookie"

definition test_mismatch_request :: Request where
  "test_mismatch_request = test_request [] ''state=zzz&code=c1'' test_cookie"

definition failing_save_env :: env where
  "failing_save_env = (test_env ''rtok'')\<lparr>Save := (\<lambda>s. Some save_error)\<rparr>"

definition empty_heap :: heap where
  "empty_heap = \<lparr>urls = (\<lambda>p. test_callback), configs = (\<lambda>p. test_config []), brk = 0\<rparr>"

definition service_of :: "NewServiceResult \<Rightarrow> Service option" where
  "service_of r = (case r of ServiceOk svc h \<Rightarrow> Some svc | ServiceError _ \<Rightarrow> None | ServicePanic \<Rightarrow> None)"

section \<open>The loops of the resolver compute the spec's notions\<close>

lemma TrimSpace_Nil: "TrimSpace [] = []"
  by (simp add: TrimSpace_def)

lemma Trim_Nil: "Trim [] c = []"
  by (simp add: Trim_def)

lemma first_nonempty_Nil: "first_nonempty [] = []"
  by (simp add: first_nonempty_def)

lemma first_nonempty_Cons:
  "first_nonempty (x # xs) = (if x \<noteq> [] then x else first_nonempty xs)"
  by (simp add: first_nonempty_def)

lemma first_nonempty_append:
  "first_nonempty (xs @ ys) =
     (if first_nonempty xs \<noteq> [] then first_nonempty xs else first_nonempty ys)"
  by (induction xs) (simp_all add: first_nonempty_Cons first_nonempty_Nil)

lemma firstHeaderValue_loop_eq:
  "firstHeaderValue_loop segments = first_nonempty (map TrimSpace segments)"
  by (induction segments) (simp_all add: first_nonempty_Cons first_nonempty_Nil Let_def)

lemma firstHeaderValue_eq: "firstHeaderValue v = first_token v"
  by (simp add: firstHeaderValue_def first_token_def firstHeaderValue_loop_eq
      headerValueSeparator_def first_nonempty_Cons first_nonempty_Nil TrimSpace_Nil)

lemma directive_value_blank: "TrimSpace pair = [] \<Longrightarrow> directive_value L prefix pair = []"
  by (simp add: directive_value_def Let_def TrimSpace_Nil Trim_Nil)

lemma extractForwardedDirective_pairs_eq:
  "extractForwardedDirective_pairs L prefix pairs =
     (let v = first_nonempty (map (directive_value L prefix) pairs)
      in if v \<noteq> [] then Some v else None)"
proof (induction pairs)
  case Nil
  then show ?case by (simp add: first_nonempty_Nil)
next
  case (Cons pair pairs)
  show ?case
  proof (cases "TrimSpace pair = []")
    case True
    then show ?thesis using Cons
      by (simp add: first_nonempty_Cons directive_value_blank Let_def)
  next
    case False
    then show ?thesis using Cons
      by (simp add: first_nonempty_Cons directive_value_def Let_def)
  qed
qed

lemma extractForwardedDirective_loop_eq:
  "extractForwardedDirective_loop L prefix directives =
     first_nonempty (map (directive_value L prefix)
       (concat (map (\<lambda>g. Split (TrimSpace g) (CHR '';'')) directives)))"
proof (induction directives)
  case Nil
  then show ?case by (simp add: first_nonempty_Nil)
next
  case (Cons directive directives)
  show ?case
  proof (cases "TrimSpace directive = []")
    case True
    then show ?thesis using Cons
      by (simp add: first_nonempty_append first_nonempty_Cons first_nonempty_Nil
          directive_value_blank TrimSpace_Nil)
  next
    case False
    then show ?thesis using Cons
      by (simp add: first_nonempty_append extractForwardedDirective_pairs_eq Let_def
          forwardedPairSeparator_def)
  qed
qed

lemma extractForwardedDirective_eq:
  "extractForwardedDirective L v prefix = forwarded_directive L v prefix"
  by (simp add: extractForwardedDirective_def forwarded_directive_def
      extractForwardedDirective_loop_eq headerValueSeparator_def first_nonempty_Cons
      first_nonempty_Nil directive_value_blank TrimSpace_Nil)

lemma ToLower_https: "ToLower L ''https'' = ''https''"
  by (simp add: ToLower_def lower_char_def)

lemmas eval_strings =
  TrimSpace_def white_space_def Trim_def ToLower_def lower_char_def HasPrefix_def Contains_def
  first_nonempty_def first_token_def directive_value_def forwarded_directive_def
  Header_Get_def Values_Get_def

lemmas eval_fixtures =
  test_base_def test_callback_def test_endpoint_def test_config_def test_heap_def
  test_service_def test_handlers_def test_request_def test_cookie_def test_token_def
  test_user_def test_lib_def test_env_def test_url_def test_callback_request_def
  test_mismatch_request_def failing_save_env_def save_error_def

lemmas eval_resolver =
  effectiveBaseURL_def resolveHost_def resolveScheme_def resolvePort_def
  firstHeaderValue_def extractForwardedDirective_def new_url_def new_config_def Let_def
  headerForwarded_def headerXForwardedProto_def headerXForwardedScheme_def
  headerXForwardedHost_def headerXForwardedPort_def forwardedProtoPrefix_def
  forwardedHostPrefix_def headerValueSeparator_def forwardedPairSeparator_def
  defaultHTTPScheme_def redirectURLForRequest_def authorizationConfigForRequest_def
  request_config_def

lemmas eval_handlers =
  Callback_def Callback_profile_def Callback_store_def Login_def Logout_def store_Get_def
  GenerateState_def GetUser_def LoginPath_def ScopeProfile_def ScopeEmail_def
  DefaultScopes_def error_redirect_def cookie_value_def persisted_after_def

section \<open>Scheme and port of the redirect URL\<close>

text \<open>
  C4. For every request the scheme resolved for the redirect URL is the first non-empty
  candidate in this order: the \<open>proto=\<close> directive of the \<open>Forwarded\<close> header, the
  first non-empty comma-separated token of \<open>X-Forwarded-Proto\<close>, the first non-empty
  token of \<open>X-Forwarded-Scheme\<close>, \<open>https\<close> when the request carries TLS state, the
  scheme of the request URL, the scheme of the configured public base URL, and at last
  the default \<open>https\<close>. The code returns the winner in lower case.
\<close>

theorem resolveScheme_priority:
  "resolveScheme L h svc req = ToLower L (first_nonempty (scheme_candidates L h svc req))"
  by (simp add: resolveScheme_def scheme_candidates_def first_nonempty_Cons first_nonempty_Nil
      extractForwardedDirective_eq firstHeaderValue_eq Let_def ToLower_https
      defaultHTTPScheme_def headerForwarded_def headerXForwardedProto_def
      headerXForwardedScheme_def forwardedProtoPrefix_def
      split: option.splits)

theorem resolveScheme_priority_witness:
  "resolveScheme test_lib (test_heap DefaultScopes) test_service
     (test_request [(''X-Forwarded-Proto'', '' HTTPS , http''),
                    (''X-Forwarded-Scheme'', ''ws'')] [] NoCookie) = ''https''
   \<and> resolveScheme test_lib (test_heap DefaultScopes) test_service
     (test_request [(''X-Forwarded-Proto'', [CHR 0xC2, CHR 0xA0]),
                    (''X-Forwarded-Scheme'', ''ws'')] [] NoCookie) = ''ws''"
  using resolveScheme_priority [where L = test_lib and h = "test_heap DefaultScopes"
     and svc = test_service and req = "test_request [(''X-Forwarded-Proto'', '' HTTPS , http''),
                    (''X-Forwarded-Scheme'', ''ws'')] [] NoCookie"]
    resolveScheme_priority [where L = test_lib and h = "test_heap DefaultScopes"
     and svc = test_service and req = "test_request [(''X-Forwarded-Proto'', [CHR 0xC2, CHR 0xA0]),
                    (''X-Forwarded-Scheme'', ''ws'')] [] NoCookie"]
  by (simp add: scheme_candidates_def eval_strings test_request_def)

lemma resolveHost_empty:
  "publicBaseURL svc = Some base \<Longrightarrow> resolveHost L h svc req = [] \<Longrightarrow> Host (urls h base) = []"
  by (simp add: resolveHost_def Let_def split: if_splits)

text \<open>
  C5. For every request the first non-empty comma-separated token of
  \<open>X-Forwarded-Port\<close> is appended to the resolved host, as \<open>:port\<close>, only when that
  host contains no colon, hence no port; when the header is absent the host of the
  effective base URL is the resolved host as it is: nothing stands in for a missing
  port.
\<close>

theorem forwarded_port_only_without_port:
  assumes "publicBaseURL svc = Some base"
    and "effectiveBaseURL L h svc (Some req) = (r, h')"
  shows "(case r of
            None \<Rightarrow> False
          | Some p \<Rightarrow>
              Host (urls h' p) =
                (let host = resolveHost L h svc req;
                     port = first_token (Header_Get (Header req) ''X-Forwarded-Port'')
                 in if host \<noteq> [] \<and> port \<noteq> [] \<and> CHR '':'' \<notin> set host
                    then host @ '':'' @ port else host)
              \<and> (Header req ''X-Forwarded-Port'' = None
                   \<longrightarrow> Host (urls h' p) = resolveHost L h svc req))"
proof (cases "resolveHost L h svc req = []")
  case True
  with assms have "r = Some base" "h' = h"
    by (simp_all add: effectiveBaseURL_def Let_def)
  with True resolveHost_empty [OF assms(1) True] show ?thesis by simp
next
  case False
  have "Header req ''X-Forwarded-Port'' = None
          \<Longrightarrow> first_token (Header_Get (Header req) ''X-Forwarded-Port'') = []"
    by (simp add: Header_Get_def first_token_def first_nonempty_def TrimSpace_Nil)
  with False assms show ?thesis
    by (auto simp add: effectiveBaseURL_def Let_def new_url_def resolvePort_def
        firstHeaderValue_eq headerXForwardedPort_def Contains_def)
qed

theorem forwarded_port_only_without_port_witness:
  "fst (effectiveBaseURL test_lib (test_heap DefaultScopes) test_service
          (Some (test_request [(''X-Forwarded-Port'', ''8443'')] [] NoCookie))) = Some 4
   \<and> Host (urls (snd (effectiveBaseURL test_lib (test_heap DefaultScopes) test_service
          (Some (test_request [(''X-Forwarded-Port'', ''8443'')] [] NoCookie)))) 4)
       = ''loopaware.mprlab.com:8443''
   \<and> Host (urls (snd (effectiveBaseURL test_lib (test_heap DefaultScopes) test_service
          (Some (test_request [(''X-Forwarded-Host'', ''proxy.example:444''),
                               (''X-Forwarded-Port'', ''8443'')] [] NoCookie)))) 4)
       = ''proxy.example:444''
   \<and> Host (urls (snd (effectiveBaseURL test_lib (test_heap DefaultScopes) test_service
          (Some (test_request [(''X-Forwarded-Port'', [CHR 0xC2, CHR 0xA0])] []
                   NoCookie)))) 4)
       = ''loopaware.mprlab.com''"
  using forwarded_port_only_without_port [where L = test_lib and svc = test_service
      and base = 0 and h = "test_heap DefaultScopes"
      and req = "test_request [(''X-Forwarded-Port'', ''8443'')] [] NoCookie"
      and r = "fst (effectiveBaseURL test_lib (test_heap DefaultScopes) test_service
          (Some (test_request [(''X-Forwarded-Port'', ''8443'')] [] NoCookie)))"
      and h' = "snd (effectiveBaseURL test_lib (test_heap DefaultScopes) test_service
          (Some (test_request [(''X-Forwarded-Port'', ''8443'')] [] NoCookie)))"]
    forwarded_port_only_without_port [where L = test_lib and svc = test_service
      and base = 0 and h = "test_heap DefaultScopes"
      and req = "test_request [(''X-Forwarded-Host'', ''proxy.example:444''),
                     (''X-Forwarded-Port'', ''8443'')] [] NoCookie"
      and r = "fst (effectiveBaseURL test_lib (test_heap DefaultScopes) test_service
          (Some (test_request [(''X-Forwarded-Host'', ''proxy.example:444''),
                               (''X-Forwarded-Port'', ''8443'')] [] NoCookie)))"
      and h' = "snd (effectiveBaseURL test_lib (test_heap DefaultScopes) test_service
          (Some (test_request [(''X-Forwarded-Host'', ''proxy.example:444''),
                               (''X-Forwarded-Port'', ''8443'')] [] NoCookie)))"]
    forwarded_port_only_without_port [where L = test_lib and svc = test_service
      and base = 0 and h = "test_heap DefaultScopes"
      and req = "test_request [(''X-Forwarded-Port'', [CHR 0xC2, CHR 0xA0])] [] NoCookie"
      and r = "fst (effectiveBaseURL test_lib (test_heap DefaultScopes) test_service
          (Some (test_request [(''X-Forwarded-Port'', [CHR 0xC2, CHR 0xA0])] []
                   NoCookie)))"
      and h' = "snd (effectiveBaseURL test_lib (test_heap DefaultScopes) test_service
          (Some (test_request [(''X-Forwarded-Port'', [CHR 0xC2, CHR 0xA0])] []
                   NoCookie)))"]
  by (simp add: eval_resolver eval_strings eval_fixtures)

section \<open>The callback handler\<close>

lemma request_config_eq:
  "request_config L h svc req =
     (configs h (config svc))\<lparr>RedirectURL := fst (redirectURLForRequest L h svc (Some req))\<rparr>"
  by (simp add: request_config_def authorizationConfigForRequest_def new_config_def Let_def
      split: prod.splits)

lemma Scopes_request_config:
  "Scopes (request_config L h svc req) = Scopes (configs h (config svc))"
  by (simp add: request_config_eq)

lemma hasProfileScope_iff:
  "hasProfileScope scopes \<longleftrightarrow> (\<exists>scope \<in> set scopes. scope = ''profile'' \<or> scope = ''email'')"
  by (induction scopes) (auto simp add: ScopeProfile_def ScopeEmail_def)

lemma store_Get_cookie_value:
  "Values (fst (store_Get st req)) k = cookie_value (SessionCookie req) k"
  by (simp add: store_Get_def cookie_value_def split: cookie.splits)

lemma in_identity_token_keys:
  "k \<in> set identity_token_keys \<Longrightarrow> k \<noteq> OAuthState"
  by (auto simp add: identity_token_keys_def)

lemma Login_keeps_other_keys:
  "k \<noteq> OAuthState \<Longrightarrow>
     Values (session (Login L E h hs req)) k = Values (fst (store_Get (store hs) req)) k"
  by (simp add: Login_def Let_def split: sum.splits option.splits)

lemma Login_set_cookie:
  "set_cookie (Login L E h hs req) = Some s \<Longrightarrow> s = session (Login L E h hs req)"
  by (simp add: Login_def Let_def split: sum.splits option.splits)

lemma Login_response:
  "response (Login L E h hs req) = HttpError ''Internal Server Error'' 500
   \<or> (case GenerateState E of
         Inl err \<Rightarrow> False
       | Inr stateValue \<Rightarrow>
           response (Login L E h hs req) =
             HttpRedirect (AuthCodeURL L (request_config L h (service hs) req) stateValue
               [(''access_type'', ''offline''), (''prompt'', ''consent'')]) 302)"
  by (simp add: Login_def Let_def split: sum.splits option.splits)

lemma Callback_profile_Inl:
  "Callback_profile L E ws cfg tok calls = Inl r \<Longrightarrow>
     response r = error_redirect ''user_info_failed'' \<and> set_cookie r = None \<and> session r = ws"
  by (auto simp add: Callback_profile_def error_redirect_def split: if_splits sum.splits)

lemma Callback_store_Some:
  "set_cookie (Callback_store L E hs ws tok calls) = Some s \<Longrightarrow>
     response (Callback_store L E hs ws tok calls)
       = HttpRedirect (localRedirectURL (service hs)) 302"
  by (simp add: Callback_store_def Let_def split: option.splits)

lemma Callback_store_session:
  "session (Callback_store L E hs ws tok calls) =
     (case json_Marshal L tok of
        Inr js \<Rightarrow> ws\<lparr>Values := (Values ws)(SessionKeyOAuthToken \<mapsto> StringValue js)\<rparr>
      | Inl err \<Rightarrow> ws)"
  by (simp add: Callback_store_def Let_def split: option.splits sum.splits)

lemma Callback_store_trace:
  "trace (Callback_store L E hs ws tok calls) =
     calls @ [CallSave (session (Callback_store L E hs ws tok calls))]"
  by (simp add: Callback_store_def Let_def split: option.splits sum.splits)

lemma Callback_store_saved:
  "Save E (session (Callback_store L E hs ws tok calls)) = None \<Longrightarrow>
   set_cookie (Callback_store L E hs ws tok calls)
     = Some (session (Callback_store L E hs ws tok calls))
   \<and> response (Callback_store L E hs ws tok calls)
     = HttpRedirect (localRedirectURL (service hs)) 302"
  by (simp add: Callback_store_def Let_def split: option.splits sum.splits)

lemma Callback_set_cookie_Some:
  "set_cookie (Callback L E h hs req) = Some s \<Longrightarrow>
     (set_cookie (Login L E h hs req) = Some s
        \<and> response (Callback L E h hs req) = response (Login L E h hs req))
     \<or> response (Callback L E h hs req) = HttpRedirect (localRedirectURL (service hs)) 302"
  by (auto simp add: Callback_def Let_def
      split: option.splits session_value.splits sum.splits if_splits prod.splits
      dest: Callback_profile_Inl Callback_store_Some)

lemma Callback_error_redirect_persisted:
  assumes "response (Callback L E h hs req) = error_redirect e"
    and "localRedirectURL (service hs) \<noteq> LoginPath @ ''?error='' @ e"
    and "k \<in> set identity_token_keys"
  shows "cookie_value (persisted_after req (Callback L E h hs req)) k
           = cookie_value (SessionCookie req) k"
proof (cases "set_cookie (Callback L E h hs req)")
  case None
  then show ?thesis by (simp add: persisted_after_def)
next
  case (Some s)
  have k: "k \<noteq> OAuthState" using assms(3) by (rule in_identity_token_keys)
  from Callback_set_cookie_Some [OF Some] assms(1,2)
  have "set_cookie (Login L E h hs req) = Some s"
    by (auto simp add: error_redirect_def)
  then have "s = session (Login L E h hs req)" by (rule Login_set_cookie)
  then have "Values s k = Values (fst (store_Get (store hs) req)) k"
    using Login_keeps_other_keys [OF k] by simp
  then show ?thesis using Some
    by (simp add: persisted_after_def store_Get_cookie_value cookie_value_def)
qed

lemma Callback_reaches_profile:
  assumes "Values (fst (store_Get (store hs) req)) OAuthState = Some (StringValue st)"
    and "RequestURL req = Some u"
    and "Values_Get (ParseQuery L (RawQuery u)) ''state'' = st"
    and "Values_Get (ParseQuery L (RawQuery u)) ''code'' = code" and "code \<noteq> []"
    and "Exchange E (request_config L h (service hs) req) code = Inr tok"
    and "RefreshToken tok \<noteq> []"
  shows "Callback L E h hs req =
     (case Callback_profile L E (fst (store_Get (store hs) req))
             (request_config L h (service hs) req) tok
             [CallExchange (request_config L h (service hs) req) code] of
        Inl r \<Rightarrow> r
      | Inr (ws, calls) \<Rightarrow> Callback_store L E hs ws tok calls)"
  using assms by (simp add: Callback_def Let_def)

text \<open>
  C1. Whenever \<open>Callback\<close> answers with the redirect to the login path that carries an
  error value \<open>e\<close> (any of \<open>missing_state\<close>, \<open>invalid_state\<close>, \<open>missing_code\<close>,
  \<open>token_exchange_failed\<close>, \<open>user_info_failed\<close>, \<open>session_save_failed\<close>), the cookie
  the client holds afterwards has the same email, name, picture and token entries as
  the cookie it sent. The post-login URL of the service is taken not to be that error
  URL itself, so that the response tells an error redirect from the final one. In
  particular, when the stored state is not the \<open>state\<close> parameter, \<open>Callback\<close> answers
  with \<open>error=invalid_state\<close>, writes no cookie, leaves the session as loaded and calls
  nothing.
\<close>

theorem Callback_error_redirect_keeps_identity:
  "(response (Callback L E h hs req) = error_redirect e
      \<and> localRedirectURL (service hs) \<noteq> LoginPath @ ''?error='' @ e
    \<longrightarrow> (\<forall>k \<in> set identity_token_keys.
           cookie_value (persisted_after req (Callback L E h hs req)) k
             = cookie_value (SessionCookie req) k))
   \<and> (Values (fst (store_Get (store hs) req)) OAuthState = Some (StringValue stored)
      \<and> RequestURL req = Some u
      \<and> Values_Get (ParseQuery L (RawQuery u)) ''state'' \<noteq> stored
    \<longrightarrow> Callback L E h hs req =
          \<lparr>response = error_redirect ''invalid_state'',
           session = fst (store_Get (store hs) req), set_cookie = None, trace = []\<rparr>)"
proof (intro conjI impI ballI)
  fix k
  assume "response (Callback L E h hs req) = error_redirect e
      \<and> localRedirectURL (service hs) \<noteq> LoginPath @ ''?error='' @ e"
    and "k \<in> set identity_token_keys"
  then show "cookie_value (persisted_after req (Callback L E h hs req)) k
             = cookie_value (SessionCookie req) k"
    using Callback_error_redirect_persisted by blast
next
  assume "Values (fst (store_Get (store hs) req)) OAuthState = Some (StringValue stored)
      \<and> RequestURL req = Some u
      \<and> Values_Get (ParseQuery L (RawQuery u)) ''state'' \<noteq> stored"
  then show "Callback L E h hs req =
          \<lparr>response = error_redirect ''invalid_state'',
           session = fst (store_Get (store hs) req), set_cookie = None, trace = []\<rparr>"
    by (elim conjE) (simp add: Callback_def Let_def error_redirect_def)
qed

theorem Callback_error_redirect_keeps_identity_witness:
  "response (Callback test_lib (test_env ''rtok'') (test_heap DefaultScopes) test_handlers
       test_mismatch_request) = error_redirect ''invalid_state''
   \<and> set_cookie (Callback test_lib (test_env ''rtok'') (test_heap DefaultScopes) test_handlers
       test_mismatch_request) = None
   \<and> cookie_value (persisted_after test_mismatch_request
        (Callback test_lib (test_env ''rtok'') (test_heap DefaultScopes) test_handlers
           test_mismatch_request)) SessionKeyUserEmail
       = Some (StringValue ''old@example.com'')
   \<and> cookie_value (persisted_after test_mismatch_request
        (Callback test_lib (test_env ''rtok'') (test_heap DefaultScopes) test_handlers
           test_mismatch_request)) SessionKeyOAuthToken = None"
  using Callback_error_redirect_keeps_identity [where L = test_lib and E = "test_env ''rtok''"
      and h = "test_heap DefaultScopes" and hs = test_handlers and req = test_mismatch_request
      and e = "''invalid_state''" and stored = "''s123''" and u = "test_url ''state=zzz&code=c1''"]
  by (simp add: eval_handlers eval_resolver eval_strings eval_fixtures identity_token_keys_def)

text \<open>
  C3. When \<open>Callback\<close> reaches the profile step (the state matches, a code is given,
  the exchange returns a token with a refresh token): if one of the configured scopes
  is \<open>profile\<close> or \<open>email\<close>, the profile is fetched, and on success the email, name
  and picture keys of the session are set to the profile's, while on failure the answer
  is the redirect with \<open>error=user_info_failed\<close> and nothing is written; if none is, the
  email key is set to \<open>authenticated_api_user\<close>, no profile is fetched, and the name and
  picture keys stay as they were loaded.
\<close>

theorem Callback_profile_or_sentinel:
  assumes "Values (fst (store_Get (store hs) req)) OAuthState = Some (StringValue st)"
    and "RequestURL req = Some u"
    and "Values_Get (ParseQuery L (RawQuery u)) ''state'' = st"
    and "Values_Get (ParseQuery L (RawQuery u)) ''code'' = code" and "code \<noteq> []"
    and "Exchange E (request_config L h (service hs) req) code = Inr tok"
    and "RefreshToken tok \<noteq> []"
  shows "if (\<exists>scope \<in> set (Scopes (configs h (config (service hs)))).
               scope = ''profile'' \<or> scope = ''email'')
         then CallUserInfo tok \<in> set (trace (Callback L E h hs req))
              \<and> (case GetUser L E tok of
                    Inl err \<Rightarrow>
                      response (Callback L E h hs req) = error_redirect ''user_info_failed''
                      \<and> session (Callback L E h hs req) = fst (store_Get (store hs) req)
                      \<and> set_cookie (Callback L E h hs req) = None
                  | Inr user \<Rightarrow>
                      Values (session (Callback L E h hs req)) SessionKeyUserEmail
                        = Some (StringValue (Email user))
                      \<and> Values (session (Callback L E h hs req)) SessionKeyUserName
                        = Some (StringValue (Name user))
                      \<and> Values (session (Callback L E h hs req)) SessionKeyUserPicture
                        = Some (StringValue (Picture user)))
         else Values (session (Callback L E h hs req)) SessionKeyUserEmail
                = Some (StringValue ''authenticated_api_user'')
              \<and> (\<forall>t. CallUserInfo t \<notin> set (trace (Callback L E h hs req)))
              \<and> Values (session (Callback L E h hs req)) SessionKeyUserName
                  = Values (fst (store_Get (store hs) req)) SessionKeyUserName
              \<and> Values (session (Callback L E h hs req)) SessionKeyUserPicture
                  = Values (fst (store_Get (store hs) req)) SessionKeyUserPicture"
  unfolding Callback_reaches_profile [OF assms]
  by (auto simp add: Callback_profile_def hasProfileScope_iff Scopes_request_config
      Callback_store_session Callback_store_trace error_redirect_def
      split: sum.splits)

theorem Callback_profile_or_sentinel_witness:
  "Values (session (Callback test_lib (test_env ''rtok'') (test_heap [''drive.readonly''])
       test_handlers test_callback_request)) SessionKeyUserEmail
     = Some (StringValue ''authenticated_api_user'')
   \<and> Values (session (Callback test_lib (test_env ''rtok'') (test_heap [''drive.readonly''])
       test_handlers test_callback_request)) SessionKeyUserName = None
   \<and> Values (session (Callback test_lib (test_env ''rtok'') (test_heap DefaultScopes)
       test_handlers test_callback_request)) SessionKeyUserEmail
     = Some (StringValue ''e@example.com'')
   \<and> Values (session (Callback test_lib (test_env ''rtok'') (test_heap DefaultScopes)
       test_handlers test_callback_request)) SessionKeyUserName
     = Some (StringValue ''tester'')"
  using Callback_profile_or_sentinel [where hs = test_handlers and req = test_callback_request
     and st = "''s123''" and L = test_lib and code = "''c1''" and E = "test_env ''rtok''"
     and h = "test_heap [''drive.readonly'']" and tok = "test_token ''rtok''"
     and u = "test_url ''state=s123&code=c1''"]
    Callback_profile_or_sentinel [where hs = test_handlers and req = test_callback_request
     and st = "''s123''" and L = test_lib and code = "''c1''" and E = "test_env ''rtok''"
     and h = "test_heap DefaultScopes" and tok = "test_token ''rtok''"
     and u = "test_url ''state=s123&code=c1''"]
  by (simp add: eval_handlers eval_resolver eval_strings eval_fixtures)

text \<open>
  C6. When the exchange succeeds and the token has no refresh token, \<open>Callback\<close>
  returns what \<open>Login\<close> returns on the same request (after the one call of the
  exchange): the answer is \<open>Login\<close>'s, that is the redirect to the provider or the
  plain 500 of \<open>Login\<close>, and no email, name, picture or token key of the session is
  written; the one key written is the new state that \<open>Login\<close> stores.
\<close>

theorem Callback_restarts_login:
  assumes "Values (fst (store_Get (store hs) req)) OAuthState = Some (StringValue st)"
    and "RequestURL req = Some u"
    and "Values_Get (ParseQuery L (RawQuery u)) ''state'' = st"
    and "Values_Get (ParseQuery L (RawQuery u)) ''code'' = code" and "code \<noteq> []"
    and "Exchange E (request_config L h (service hs) req) code = Inr tok"
    and "RefreshToken tok = []"
  shows "Callback L E h hs req =
           (Login L E h hs req)
             \<lparr>trace := CallExchange (request_config L h (service hs) req) code
                        # trace (Login L E h hs req)\<rparr>
         \<and> (\<forall>k \<in> set identity_token_keys.
               Values (session (Callback L E h hs req)) k
                 = Values (fst (store_Get (store hs) req)) k)
         \<and> (response (Callback L E h hs req) = HttpError ''Internal Server Error'' 500
            \<or> (case GenerateState E of
                  Inl err \<Rightarrow> False
                | Inr stateValue \<Rightarrow>
                    response (Callback L E h hs req) =
                      HttpRedirect
                        (AuthCodeURL L (request_config L h (service hs) req) stateValue
                           [(''access_type'', ''offline''), (''prompt'', ''consent'')]) 302))"
proof -
  have eq: "Callback L E h hs req =
           (Login L E h hs req)
             \<lparr>trace := CallExchange (request_config L h (service hs) req) code
                        # trace (Login L E h hs req)\<rparr>"
    using assms by (simp add: Callback_def Let_def)
  have keys: "\<forall>k \<in> set identity_token_keys.
               Values (session (Login L E h hs req)) k
                 = Values (fst (store_Get (store hs) req)) k"
    using Login_keeps_other_keys in_identity_token_keys by blast
  have r: "response (Callback L E h hs req) = response (Login L E h hs req)"
    and s: "session (Callback L E h hs req) = session (Login L E h hs req)"
    by (simp_all add: eq)
  show ?thesis
    unfolding r s using eq keys Login_response [of L E h hs req] by blast
qed

theorem Callback_restarts_login_witness:
  "response (Callback test_lib (test_env []) (test_heap DefaultScopes) test_handlers
       test_callback_request)
     = HttpRedirect (''https://provider/auth?state=c3RhdGU=''
         @ ''&redirect_uri=http://loopaware.mprlab.com/auth/google/callback'') 302
   \<and> Values (session (Callback test_lib (test_env []) (test_heap DefaultScopes) test_handlers
       test_callback_request)) SessionKeyUserEmail = Some (StringValue ''old@example.com'')
   \<and> Values (session (Callback test_lib (test_env []) (test_heap DefaultScopes) test_handlers
       test_callback_request)) SessionKeyOAuthToken = None
   \<and> Values (session (Callback test_lib (test_env []) (test_heap DefaultScopes) test_handlers
       test_callback_request)) OAuthState = Some (StringValue ''c3RhdGU='')"
  using Callback_restarts_login [where hs = test_handlers and req = test_callback_request
     and st = "''s123''" and L = test_lib and code = "''c1''" and E = "test_env []"
     and h = "test_heap DefaultScopes" and tok = "test_token []"
     and u = "test_url ''state=s123&code=c1''"]
  by (simp add: eval_handlers eval_resolver eval_strings eval_fixtures)

lemma resolveScheme_cookie:
  "resolveScheme L h svc (req\<lparr>SessionCookie := c\<rparr>) = resolveScheme L h svc req"
  by (simp add: resolveScheme_def Let_def)

lemma resolveHost_cookie:
  "resolveHost L h svc (req\<lparr>SessionCookie := c\<rparr>) = resolveHost L h svc req"
  by (simp add: resolveHost_def Let_def)

lemma resolvePort_cookie:
  "resolvePort (req\<lparr>SessionCookie := c\<rparr>) = resolvePort req"
  by (simp add: resolvePort_def)

lemma effectiveBaseURL_cookie:
  "effectiveBaseURL L h svc (Some (req\<lparr>SessionCookie := c\<rparr>)) = effectiveBaseURL L h svc (Some req)"
  by (cases "publicBaseURL svc")
     (simp_all add: effectiveBaseURL_def Let_def resolveScheme_cookie resolveHost_cookie
        resolvePort_cookie)

lemma request_config_cookie:
  "request_config L h svc (req\<lparr>SessionCookie := c\<rparr>) = request_config L h svc req"
  unfolding request_config_eq redirectURLForRequest_def effectiveBaseURL_cookie
  by (rule refl)

text \<open>
  C10. \<open>Login\<close> and \<open>Callback\<close> drop the error that loading the session returns. For a
  request whose cookie does not decode (corrupt, or with a bad signature: the store
  returns an error) both handlers return exactly what they return for the same request
  without a cookie: \<open>Callback\<close> answers with \<open>error=missing_state\<close>, and \<open>Login\<close>
  starts from an empty session and, when the state is generated and the session saved,
  answers with the 302 redirect to the provider and writes the cookie.
\<close>

theorem Login_Callback_discard_load_error:
  "snd (store_Get (store hs) (req\<lparr>SessionCookie := InvalidCookie err\<rparr>)) = Some err
   \<and> Login L E h hs (req\<lparr>SessionCookie := InvalidCookie err\<rparr>)
       = Login L E h hs (req\<lparr>SessionCookie := NoCookie\<rparr>)
   \<and> Callback L E h hs (req\<lparr>SessionCookie := InvalidCookie err\<rparr>)
       = Callback L E h hs (req\<lparr>SessionCookie := NoCookie\<rparr>)
   \<and> Callback L E h hs (req\<lparr>SessionCookie := NoCookie\<rparr>)
       = \<lparr>response = error_redirect ''missing_state'',
          session = \<lparr>Values = (\<lambda>k. None), MaxAge = DefaultMaxAge (store hs)\<rparr>,
          set_cookie = None, trace = []\<rparr>
   \<and> (GenerateState E = Inr stateValue
        \<and> Save E \<lparr>Values = (\<lambda>k. None)(OAuthState \<mapsto> StringValue stateValue),
                   MaxAge = DefaultMaxAge (store hs)\<rparr> = None
      \<longrightarrow> Login L E h hs (req\<lparr>SessionCookie := InvalidCookie err\<rparr>)
          = \<lparr>response = HttpRedirect
               (AuthCodeURL L (request_config L h (service hs) req) stateValue
                  [(''access_type'', ''offline''), (''prompt'', ''consent'')]) 302,
             session = \<lparr>Values = (\<lambda>k. None)(OAuthState \<mapsto> StringValue stateValue),
                        MaxAge = DefaultMaxAge (store hs)\<rparr>,
             set_cookie = Some \<lparr>Values = (\<lambda>k. None)(OAuthState \<mapsto> StringValue stateValue),
                        MaxAge = DefaultMaxAge (store hs)\<rparr>,
             trace = [CallRandRead,
                      CallSave \<lparr>Values = (\<lambda>k. None)(OAuthState \<mapsto> StringValue stateValue),
                        MaxAge = DefaultMaxAge (store hs)\<rparr>]\<rparr>)"
  by (simp add: Login_def Callback_def store_Get_def Let_def request_config_cookie
      error_redirect_def GenerateState_def split: sum.splits option.splits)

theorem Login_Callback_discard_load_error_witness:
  "response (Login test_lib (test_env ''rtok'') (test_heap DefaultScopes) test_handlers
       (test_request [] [] (InvalidCookie ''securecookie: the value is not valid'')))
     = HttpRedirect (''https://provider/auth?state=c3RhdGU=''
         @ ''&redirect_uri=http://loopaware.mprlab.com/auth/google/callback'') 302
   \<and> response (Callback test_lib (test_env ''rtok'') (test_heap DefaultScopes) test_handlers
       (test_request [] ''state=s123&code=c1''
          (InvalidCookie ''securecookie: the value is not valid'')))
     = error_redirect ''missing_state''"
  using Login_Callback_discard_load_error [where L = test_lib and E = "test_env ''rtok''"
      and h = "test_heap DefaultScopes" and hs = test_handlers
      and req = "test_request [] [] NoCookie" and stateValue = "''c3RhdGU=''"
      and err = "''securecookie: the value is not valid''"]
    Login_Callback_discard_load_error [where L = test_lib and E = "test_env ''rtok''"
      and h = "test_heap DefaultScopes" and hs = test_handlers
      and req = "test_request [] ''state=s123&code=c1'' NoCookie"
      and err = "''securecookie: the value is not valid''"]
  by (simp add: eval_handlers eval_resolver eval_strings eval_fixtures)

text \<open>
  C7. When \<open>Callback\<close> has passed the refresh-token check and the profile or sentinel
  branch has completed (the profile was fetched, or no scope asked for it), the session
  handed to \<open>Save\<close>, which is the last call of the handler, holds the serialized token
  under the token key, whichever branch was taken; a successful save writes that session
  to the cookie and redirects to the post-login URL. The serialization is taken to
  succeed, as it does for every token the exchange returns: the fields of a token are
  strings and an expiry a bounded time from now.
\<close>

theorem Callback_stores_token_before_save:
  assumes "Values (fst (store_Get (store hs) req)) OAuthState = Some (StringValue st)"
    and "RequestURL req = Some u"
    and "Values_Get (ParseQuery L (RawQuery u)) ''state'' = st"
    and "Values_Get (ParseQuery L (RawQuery u)) ''code'' = code" and "code \<noteq> []"
    and "Exchange E (request_config L h (service hs) req) code = Inr tok"
    and "RefreshToken tok \<noteq> []"
    and "(\<exists>scope \<in> set (Scopes (configs h (config (service hs)))).
            scope = ''profile'' \<or> scope = ''email'') \<longrightarrow> GetUser L E tok = Inr user"
    and "json_Marshal L tok = Inr tokenBytes"
  shows "last (trace (Callback L E h hs req)) = CallSave (session (Callback L E h hs req))
     \<and> Values (session (Callback L E h hs req)) SessionKeyOAuthToken
          = Some (StringValue tokenBytes)
     \<and> (Save E (session (Callback L E h hs req)) = None
          \<longrightarrow> set_cookie (Callback L E h hs req) = Some (session (Callback L E h hs req))
              \<and> response (Callback L E h hs req)
                  = HttpRedirect (localRedirectURL (service hs)) 302)"
  unfolding Callback_reaches_profile [OF assms(1-7)]
  using assms(8,9)
  by (auto simp add: Callback_profile_def hasProfileScope_iff Scopes_request_config
      Callback_store_session Callback_store_trace Callback_store_saved
      split: sum.splits)

theorem Callback_stores_token_before_save_witness:
  "Values (session (Callback test_lib (test_env ''rtok'') (test_heap [''drive.readonly''])
       test_handlers test_callback_request)) SessionKeyOAuthToken
     = Some (StringValue ''{access_token:abc,refresh_token:rtok}'')
   \<and> Values (session (Callback test_lib (test_env ''rtok'') (test_heap DefaultScopes)
       test_handlers test_callback_request)) SessionKeyOAuthToken
     = Some (StringValue ''{access_token:abc,refresh_token:rtok}'')
   \<and> set_cookie (Callback test_lib (test_env ''rtok'') (test_heap DefaultScopes)
       test_handlers test_callback_request)
     = Some (session (Callback test_lib (test_env ''rtok'') (test_heap DefaultScopes)
       test_handlers test_callback_request))"
  using Callback_stores_token_before_save [where hs = test_handlers
     and req = test_callback_request
     and st = "''s123''" and L = test_lib and code = "''c1''" and E = "test_env ''rtok''"
     and h = "test_heap [''drive.readonly'']" and tok = "test_token ''rtok''"
     and u = "test_url ''state=s123&code=c1''" and user = test_user
     and tokenBytes = "''{access_token:abc,refresh_token:rtok}''"]
    Callback_stores_token_before_save [where hs = test_handlers
     and req = test_callback_request
     and st = "''s123''" and L = test_lib and code = "''c1''" and E = "test_env ''rtok''"
     and h = "test_heap DefaultScopes" and tok = "test_token ''rtok''"
     and u = "test_url ''state=s123&code=c1''" and user = test_user
     and tokenBytes = "''{access_token:abc,refresh_token:rtok}''"]
  by (simp add: eval_handlers eval_resolver eval_strings eval_fixtures)

section \<open>The configuration for a request\<close>

lemma effectiveBaseURL_frame:
  "effectiveBaseURL L h svc request = (r, h1) \<Longrightarrow>
     configs h1 = configs h \<and> brk h \<le> brk h1 \<and> (\<forall>q. q < brk h \<longrightarrow> urls h1 q = urls h q)"
  by (auto simp add: effectiveBaseURL_def Let_def new_url_def split: option.splits if_splits)

lemma redirectURLForRequest_frame:
  "redirectURLForRequest L h svc request = (s, h1) \<Longrightarrow>
     configs h1 = configs h \<and> brk h \<le> brk h1 \<and> (\<forall>q. q < brk h \<longrightarrow> urls h1 q = urls h q)"
  by (auto simp add: redirectURLForRequest_def Let_def new_url_def
      split: option.splits prod.splits dest!: effectiveBaseURL_frame)

lemma authorizationConfigForRequest_unfold:
  "authorizationConfigForRequest L h svc request =
     new_config (snd (redirectURLForRequest L h svc request))
       ((configs h (config svc))\<lparr>RedirectURL := fst (redirectURLForRequest L h svc request)\<rparr>)"
  by (simp add: authorizationConfigForRequest_def Let_def split: prod.splits)

lemma resolveScheme_reads:
  "\<forall>b. publicBaseURL svc = Some b \<longrightarrow> urls g b = urls h b \<Longrightarrow>
     resolveScheme L g svc req = resolveScheme L h svc req"
  by (cases "publicBaseURL svc") (simp_all add: resolveScheme_def Let_def)

lemma resolveHost_reads:
  "\<forall>b. publicBaseURL svc = Some b \<longrightarrow> urls g b = urls h b \<Longrightarrow>
     resolveHost L g svc req = resolveHost L h svc req"
  by (cases "publicBaseURL svc") (simp_all add: resolveHost_def Let_def)

lemma redirectURLForRequest_reads:
  assumes "configs g (config svc) = configs h (config svc)"
    and b: "\<forall>b. publicBaseURL svc = Some b \<longrightarrow> urls g b = urls h b"
    and c: "\<forall>c. callbackPath svc = Some c \<longrightarrow> c < brk g \<and> c < brk h \<and> urls g c = urls h c"
  shows "fst (redirectURLForRequest L g svc request) = fst (redirectURLForRequest L h svc request)"
proof (cases "callbackPath svc")
  case None
  then show ?thesis using assms(1) by (simp add: redirectURLForRequest_def)
next
  case (Some cb)
  note cb = this
  show ?thesis
  proof (cases "publicBaseURL svc")
    case None
    then show ?thesis using assms(1) cb
      by (simp add: redirectURLForRequest_def effectiveBaseURL_def)
  next
    case (Some base)
    have s: "\<And>req. resolveScheme L g svc req = resolveScheme L h svc req"
      and t: "\<And>req. resolveHost L g svc req = resolveHost L h svc req"
      using b resolveScheme_reads resolveHost_reads by blast+
    from b c Some cb have "urls g base = urls h base" "urls g cb = urls h cb"
      "cb \<noteq> brk g" "cb \<noteq> brk h" by auto
    then show ?thesis using Some cb
      by (cases request)
         (simp_all add: redirectURLForRequest_def effectiveBaseURL_def new_url_def Let_def s t)
  qed
qed

text \<open>
  C9. Computing the configuration for a request writes to fresh addresses only. With the
  service's pointers allocated, the shared configuration and the URLs the service
  points to (public base URL, callback path) are the same afterwards, as is every
  address allocated before; the configuration returned lives at a new address and is the
  shared one with \<open>RedirectURL\<close> replaced by the URL resolved for the request, so
  every other field is equal; and the resolved URL is the same in any store that agrees
  on the shared configuration and on the two URLs: besides the request and the
  service's fields nothing is read.
\<close>

theorem authorizationConfigForRequest_frame:
  assumes "authorizationConfigForRequest L h svc request = (p, h')"
    and "config svc < brk h"
    and "\<forall>b. publicBaseURL svc = Some b \<longrightarrow> b < brk h"
    and "\<forall>c. callbackPath svc = Some c \<longrightarrow> c < brk h"
  shows "configs h' (config svc) = configs h (config svc)
     \<and> (\<forall>b. publicBaseURL svc = Some b \<longrightarrow> urls h' b = urls h b)
     \<and> (\<forall>c. callbackPath svc = Some c \<longrightarrow> urls h' c = urls h c)
     \<and> (\<forall>q. q < brk h \<longrightarrow> configs h' q = configs h q \<and> urls h' q = urls h q)
     \<and> brk h \<le> p
     \<and> configs h' p =
          (configs h (config svc))\<lparr>RedirectURL := fst (redirectURLForRequest L h svc request)\<rparr>
     \<and> (\<forall>g. configs g (config svc) = configs h (config svc)
            \<and> (\<forall>b. publicBaseURL svc = Some b \<longrightarrow> urls g b = urls h b)
            \<and> (\<forall>c. callbackPath svc = Some c \<longrightarrow> c < brk g \<and> urls g c = urls h c)
          \<longrightarrow> fst (redirectURLForRequest L g svc request)
                = fst (redirectURLForRequest L h svc request))"
proof -
  obtain s h1 where r: "redirectURLForRequest L h svc request = (s, h1)"
    by (cases "redirectURLForRequest L h svc request")
  from redirectURLForRequest_frame [OF r]
  have f1: "configs h1 = configs h" and f2: "brk h \<le> brk h1"
    and f3: "\<forall>q. q < brk h \<longrightarrow> urls h1 q = urls h q"
    by simp_all
  from assms(1) r have p: "p = brk h1"
    by (auto simp add: authorizationConfigForRequest_unfold new_config_def)
  from assms(1) r have c': "configs h' = (configs h)(p := (configs h (config svc))\<lparr>RedirectURL := s\<rparr>)"
    and u': "urls h' = urls h1"
    by (auto simp add: authorizationConfigForRequest_unfold new_config_def f1)
  have frame: "\<forall>q. q < brk h \<longrightarrow> configs h' q = configs h q \<and> urls h' q = urls h q"
  proof (intro allI impI)
    fix q assume "q < brk h"
    then have "q \<noteq> p" "urls h1 q = urls h q" using p f2 f3 by simp_all
    then show "configs h' q = configs h q \<and> urls h' q = urls h q"
      by (simp add: c' u')
  qed
  have reads: "\<forall>g. configs g (config svc) = configs h (config svc)
            \<and> (\<forall>b. publicBaseURL svc = Some b \<longrightarrow> urls g b = urls h b)
            \<and> (\<forall>c. callbackPath svc = Some c \<longrightarrow> c < brk g \<and> urls g c = urls h c)
          \<longrightarrow> fst (redirectURLForRequest L g svc request)
                = fst (redirectURLForRequest L h svc request)"
  proof (intro allI impI, elim conjE)
    fix g :: heap
    assume 1: "configs g (config svc) = configs h (config svc)"
      and 2: "\<forall>b. publicBaseURL svc = Some b \<longrightarrow> urls g b = urls h b"
      and 3: "\<forall>c. callbackPath svc = Some c \<longrightarrow> c < brk g \<and> urls g c = urls h c"
    from 3 assms(4)
    have "\<forall>c. callbackPath svc = Some c \<longrightarrow> c < brk g \<and> c < brk h \<and> urls g c = urls h c"
      by simp
    with 1 2 show "fst (redirectURLForRequest L g svc request)
                = fst (redirectURLForRequest L h svc request)"
      by (rule redirectURLForRequest_reads)
  qed
  have new: "configs h' p =
          (configs h (config svc))\<lparr>RedirectURL := fst (redirectURLForRequest L h svc request)\<rparr>"
    by (simp add: c' r)
  have a: "configs h' (config svc) = configs h (config svc)"
    using frame assms(2) by simp
  have b: "\<forall>b. publicBaseURL svc = Some b \<longrightarrow> urls h' b = urls h b"
    using frame assms(3) by simp
  have c: "\<forall>c. callbackPath svc = Some c \<longrightarrow> urls h' c = urls h c"
    using frame assms(4) by simp
  have d: "brk h \<le> p" using p f2 by simp
  from a b c frame d new reads show ?thesis by (intro conjI)
qed

theorem authorizationConfigForRequest_frame_witness:
  "fst (authorizationConfigForRequest test_lib (test_heap DefaultScopes) test_service
          (Some (test_request [(''X-Forwarded-Proto'', ''https'')] [] NoCookie))) = 6
   \<and> configs (snd (authorizationConfigForRequest test_lib (test_heap DefaultScopes) test_service
          (Some (test_request [(''X-Forwarded-Proto'', ''https'')] [] NoCookie)))) 3
        = test_config DefaultScopes
   \<and> configs (snd (authorizationConfigForRequest test_lib (test_heap DefaultScopes) test_service
          (Some (test_request [(''X-Forwarded-Proto'', ''https'')] [] NoCookie)))) 6
        = (test_config DefaultScopes)
            \<lparr>RedirectURL := ''https://loopaware.mprlab.com/auth/google/callback''\<rparr>
   \<and> urls (snd (authorizationConfigForRequest test_lib (test_heap DefaultScopes) test_service
          (Some (test_request [(''X-Forwarded-Proto'', ''https'')] [] NoCookie)))) 0
        = test_base"
  using authorizationConfigForRequest_frame [where L = test_lib and h = "test_heap DefaultScopes"
      and svc = test_service
      and request = "Some (test_request [(''X-Forwarded-Proto'', ''https'')] [] NoCookie)"
      and p = "fst (authorizationConfigForRequest test_lib (test_heap DefaultScopes) test_service
          (Some (test_request [(''X-Forwarded-Proto'', ''https'')] [] NoCookie)))"
      and h' = "snd (authorizationConfigForRequest test_lib (test_heap DefaultScopes) test_service
          (Some (test_request [(''X-Forwarded-Proto'', ''https'')] [] NoCookie)))"]
  by (simp add: eval_resolver eval_strings eval_fixtures)

section \<open>Logout\<close>

lemma NewService_default_logout:
  "NewService L h ep cid sec base lr scopes tmpl [] = ServiceOk svc h' \<Longrightarrow>
     logoutRedirectURL svc = LoginPath"
  by (auto simp add: NewService_def Let_def split: if_splits sum.splits prod.splits)

lemma NewService_override_logout:
  "NewService L h ep cid sec base lr scopes tmpl [Some (WithLogoutRedirectURL v)]
     = ServiceOk svc h' \<Longrightarrow>
   logoutRedirectURL svc = (if TrimSpace v = [] then LoginPath else TrimSpace v)"
  by (auto simp add: NewService_def Let_def WithLogoutRedirectURL_def
      split: if_splits sum.splits prod.splits)

text \<open>
  C2 (amended). For every request, whatever the session holds, \<open>Logout\<close> sets the
  max-age of the session to \<open>-1\<close> and saves it, and calls nothing else. When the save
  succeeds the answer is a 302 redirect and the expired session is written to the
  cookie; if the logout destination of the service is the login path (the default) the
  redirect goes to that destination. When the save fails the answer has status 500, and
  no cookie is written. A service built without options has the login path as logout
  destination; built with \<open>WithLogoutRedirectURL v\<close> it has \<open>v\<close> trimmed, or the login
  path when nothing is left of \<open>v\<close> after trimming.
\<close>

theorem Logout_expires_and_redirects:
  "session (Logout E hs req) = (fst (store_Get (store hs) req))\<lparr>MaxAge := - 1\<rparr>
   \<and> trace (Logout E hs req) = [CallSave (session (Logout E hs req))]
   \<and> (Save E (session (Logout E hs req)) = None
        \<longrightarrow> is_redirect_302 (response (Logout E hs req))
            \<and> set_cookie (Logout E hs req) = Some (session (Logout E hs req))
            \<and> (logoutRedirectURL (service hs) = LoginPath
                \<longrightarrow> response (Logout E hs req)
                    = HttpRedirect (logoutRedirectURL (service hs)) 302))
   \<and> (Save E (session (Logout E hs req)) \<noteq> None
        \<longrightarrow> is_status_500 (response (Logout E hs req))
            \<and> set_cookie (Logout E hs req) = None)
   \<and> (\<forall>svc h'. NewService L h ep cid sec base lr scopes tmpl [] = ServiceOk svc h'
        \<longrightarrow> logoutRedirectURL svc = LoginPath)
   \<and> (\<forall>svc h'. NewService L h ep cid sec base lr scopes tmpl
                   [Some (WithLogoutRedirectURL v)] = ServiceOk svc h'
        \<longrightarrow> logoutRedirectURL svc = (if TrimSpace v = [] then LoginPath else TrimSpace v))"
proof -
  have a: "session (Logout E hs req) = (fst (store_Get (store hs) req))\<lparr>MaxAge := - 1\<rparr>"
    and b: "trace (Logout E hs req) = [CallSave (session (Logout E hs req))]"
    by (simp_all add: Logout_def Let_def split: option.splits)
  have c: "Save E (session (Logout E hs req)) = None
        \<longrightarrow> is_redirect_302 (response (Logout E hs req))
            \<and> set_cookie (Logout E hs req) = Some (session (Logout E hs req))
            \<and> (logoutRedirectURL (service hs) = LoginPath
                \<longrightarrow> response (Logout E hs req)
                    = HttpRedirect (logoutRedirectURL (service hs)) 302)"
    unfolding a by (simp add: Logout_def Let_def is_redirect_302_def)
  have d: "Save E (session (Logout E hs req)) \<noteq> None
        \<longrightarrow> is_status_500 (response (Logout E hs req))
            \<and> set_cookie (Logout E hs req) = None"
    unfolding a by (auto simp add: Logout_def Let_def is_status_500_def)
  have e: "\<forall>svc h'. NewService L h ep cid sec base lr scopes tmpl [] = ServiceOk svc h'
        \<longrightarrow> logoutRedirectURL svc = LoginPath"
    using NewService_default_logout by blast
  have f: "\<forall>svc h'. NewService L h ep cid sec base lr scopes tmpl
                   [Some (WithLogoutRedirectURL v)] = ServiceOk svc h'
        \<longrightarrow> logoutRedirectURL svc = (if TrimSpace v = [] then LoginPath else TrimSpace v)"
    using NewService_override_logout by blast
  from a b c d e f show ?thesis by (intro conjI)
qed

theorem Logout_expires_and_redirects_witness:
  "response (Logout (test_env ''rtok'') test_handlers (test_request [] [] test_cookie))
     = HttpRedirect ''/login'' 302
   \<and> MaxAge (session (Logout (test_env ''rtok'') test_handlers
        (test_request [] [] test_cookie))) = - 1
   \<and> is_status_500 (response (Logout failing_save_env test_handlers
        (test_request [] [] NoCookie)))
   \<and> service_of (NewService test_lib empty_heap test_endpoint ''id'' ''secret''
        ''http://localhost:8080'' ''/dashboard'' [] [] [Some (WithLogoutRedirectURL ''  '')])
     = Some test_service
   \<and> service_of (NewService test_lib empty_heap test_endpoint ''id'' ''secret''
        ''http://localhost:8080'' ''/dashboard'' [] []
        [Some (WithLogoutRedirectURL [CHR 0x20, CHR 0xC2, CHR 0xA0, CHR 0xE2, CHR 0x80, CHR 0x83])])
     = Some test_service"
  using Logout_expires_and_redirects [where E = "test_env ''rtok''" and hs = test_handlers
      and req = "test_request [] [] test_cookie" and L = test_lib and h = empty_heap
      and ep = test_endpoint and cid = "''id''" and sec = "''secret''"
      and base = "''http://localhost:8080''" and lr = "''/dashboard''" and scopes = "[]"
      and tmpl = "[]" and v = "''  ''"]
    Logout_expires_and_redirects [where E = "test_env ''rtok''" and hs = test_handlers
      and req = "test_request [] [] test_cookie" and L = test_lib and h = empty_heap
      and ep = test_endpoint and cid = "''id''" and sec = "''secret''"
      and base = "''http://localhost:8080''" and lr = "''/dashboard''" and scopes = "[]"
      and tmpl = "[]"
      and v = "[CHR 0x20, CHR 0xC2, CHR 0xA0, CHR 0xE2, CHR 0x80, CHR 0x83]"]
    Logout_expires_and_redirects [where E = failing_save_env and hs = test_handlers
      and req = "test_request [] [] NoCookie" and L = test_lib and h = empty_heap
      and ep = test_endpoint and cid = "''id''" and sec = "''secret''"
      and base = "''http://localhost:8080''" and lr = "''/dashboard''" and scopes = "[]"
      and tmpl = "[]" and v = "''  ''"]
  by (simp add: eval_handlers eval_resolver eval_strings eval_fixtures NewService_def
      CallbackPath_def WithLogoutRedirectURL_def service_of_def empty_heap_def
      is_status_500_def is_redirect_302_def ScopeStrings_def)

text \<open>
  C2 as stated fails twice. When the save fails \<open>Logout\<close> answers with status 500
  instead of a redirect. And for a service built with
  \<open>WithLogoutRedirectURL "/landing"\<close>, whose logout destination is \<open>/landing\<close>,
  \<open>Logout\<close> still redirects to \<open>/login\<close>: the handler does not read the field.
\<close>

theorem Logout_redirect_counterexample:
  "response (Logout failing_save_env test_handlers (test_request [] [] test_cookie))
     = HttpError ''securecookie: the value is too long'' 500
   \<and> service_of (NewService test_lib empty_heap test_endpoint ''id'' ''secret''
        ''http://localhost:8080'' ''/dashboard'' [] []
        [Some (WithLogoutRedirectURL ''/landing'')])
     = Some landing_service
   \<and> logoutRedirectURL landing_service = ''/landing''
   \<and> response (Logout (test_env ''rtok'')
        \<lparr>service = landing_service, store = \<lparr>DefaultMaxAge = 86400\<rparr>\<rparr>
        (test_request [] [] test_cookie))
     = HttpRedirect ''/login'' 302"
  by (simp add: eval_handlers eval_resolver eval_strings eval_fixtures NewService_def
      CallbackPath_def WithLogoutRedirectURL_def service_of_def empty_heap_def
      landing_service_def ScopeStrings_def)

section \<open>Errors and the response\<close>

lemma retext_lib_simps:
  "ResolveReference (retext_lib f L) = ResolveReference L"
  "URL_String (retext_lib f L) = URL_String L"
  "ParseQuery (retext_lib f L) = ParseQuery L"
  "AuthCodeURL (retext_lib f L) = AuthCodeURL L"
  "json_Marshal (retext_lib f L) t = retext f (json_Marshal L t)"
  "json_Decode (retext_lib f L) b = retext f (json_Decode L b)"
  by (simp_all add: retext_lib_def)

lemma retext_env_simps:
  "rand_Read (retext_env f E) = retext f (rand_Read E)"
  "Exchange (retext_env f E) c code = retext f (Exchange E c code)"
  "userinfo_Get (retext_env f E) t = retext f (userinfo_Get E t)"
  "Save (retext_env f E) s = map_option f (Save E s)"
  by (simp_all add: retext_env_def)

lemma ToLower_retext: "ToLower (retext_lib f L) s = ToLower L s"
  by (simp add: ToLower_def retext_lib_def)

lemma extractForwardedDirective_pairs_retext:
  "extractForwardedDirective_pairs (retext_lib f L) prefix pairs
     = extractForwardedDirective_pairs L prefix pairs"
  by (induction pairs) (simp_all add: ToLower_retext Let_def)

lemma extractForwardedDirective_loop_retext:
  "extractForwardedDirective_loop (retext_lib f L) prefix directives
     = extractForwardedDirective_loop L prefix directives"
  by (induction directives)
     (simp_all add: extractForwardedDirective_pairs_retext Let_def split: option.splits)

lemma extractForwardedDirective_retext:
  "extractForwardedDirective (retext_lib f L) v prefix = extractForwardedDirective L v prefix"
  by (simp add: extractForwardedDirective_def extractForwardedDirective_loop_retext)

lemma resolveScheme_retext:
  "resolveScheme (retext_lib f L) h svc req = resolveScheme L h svc req"
  unfolding resolveScheme_def extractForwardedDirective_retext ToLower_retext by (rule refl)

lemma resolveHost_retext:
  "resolveHost (retext_lib f L) h svc req = resolveHost L h svc req"
  unfolding resolveHost_def extractForwardedDirective_retext by (rule refl)

lemma effectiveBaseURL_retext:
  "effectiveBaseURL (retext_lib f L) h svc r = effectiveBaseURL L h svc r"
  unfolding effectiveBaseURL_def resolveScheme_retext resolveHost_retext by (rule refl)

lemma redirectURLForRequest_retext:
  "redirectURLForRequest (retext_lib f L) h svc r = redirectURLForRequest L h svc r"
  unfolding redirectURLForRequest_def retext_lib_simps effectiveBaseURL_retext by (rule refl)

lemma request_config_retext:
  "request_config (retext_lib f L) h svc req = request_config L h svc req"
  by (simp add: request_config_eq redirectURLForRequest_retext)

lemma GetUser_retext:
  "GetUser (retext_lib f L) (retext_env f E) tok = Inr user \<longleftrightarrow> GetUser L E tok = Inr user"
  by (auto simp add: GetUser_def retext_lib_simps retext_env_simps retext_def
      split: sum.splits if_splits)

lemma Callback_profile_retext:
  "Callback_profile (retext_lib f L) (retext_env f E) ws cfg tok calls
     = Callback_profile L E ws cfg tok calls"
proof (cases "GetUser L E tok")
  case (Inl e)
  then have "\<exists>e'. GetUser (retext_lib f L) (retext_env f E) tok = Inl e'"
    using GetUser_retext [of f L E tok]
    by (cases "GetUser (retext_lib f L) (retext_env f E) tok") auto
  with Inl show ?thesis by (auto simp add: Callback_profile_def)
next
  case (Inr user)
  then have "GetUser (retext_lib f L) (retext_env f E) tok = Inr user"
    by (simp add: GetUser_retext)
  with Inr show ?thesis by (simp add: Callback_profile_def)
qed

lemma Callback_store_retext:
  "Callback_store (retext_lib f L) (retext_env f E) hs ws tok calls
     = Callback_store L E hs ws tok calls"
  by (simp add: Callback_store_def Let_def retext_lib_simps retext_env_simps retext_def
      split: sum.splits option.splits)

lemma Login_retext:
  "Login (retext_lib f L) (retext_env f E) h hs req = Login L E h hs req"
  by (simp add: Login_def Let_def GenerateState_def retext_lib_simps retext_env_simps
      retext_def request_config_retext split: sum.splits option.splits)

lemma Callback_retext:
  "Callback (retext_lib f L) (retext_env f E) h hs req = Callback L E h hs req"
  by (simp add: Callback_def Let_def retext_lib_simps retext_env_simps retext_def
      request_config_retext Login_retext Callback_profile_retext Callback_store_retext
      split: sum.splits option.splits session_value.splits)


lemma Callback_missing_state:
  "\<forall>v. Values (fst (store_Get (store hs) req)) OAuthState \<noteq> Some (StringValue v) \<Longrightarrow>
     response (Callback L E h hs req) = error_redirect ''missing_state''"
  by (auto simp add: Callback_def Let_def error_redirect_def
      split: option.splits session_value.splits)

lemma Callback_store_errors:
  "CallSave s \<in> set (trace (Callback_store L E hs ws tok calls)) \<Longrightarrow>
   \<forall>x. CallSave x \<notin> set calls \<Longrightarrow> Save E s = Some err \<Longrightarrow>
     response (Callback_store L E hs ws tok calls) = error_redirect ''session_save_failed''"
  by (auto simp add: Callback_store_def Let_def error_redirect_def
      split: option.splits sum.splits)

lemma Callback_finish_errors:
  assumes "r = (case Callback_profile L E ws cfg tok [CallExchange cfg code] of
                  Inl r \<Rightarrow> r
                | Inr (ws', calls) \<Rightarrow> Callback_store L E hs ws' tok calls)"
  shows "(\<forall>err. hasProfileScope (Scopes cfg) \<and> GetUser L E tok = Inl err
            \<longrightarrow> response r = error_redirect ''user_info_failed'')
       \<and> (\<forall>s err. CallSave s \<in> set (trace r) \<and> Save E s = Some err
            \<longrightarrow> response r = error_redirect ''session_save_failed'')"
proof (cases "Callback_profile L E ws cfg tok [CallExchange cfg code]")
  case (Inl r')
  then have "r = r'" using assms by simp
  moreover from Inl have "response r' = error_redirect ''user_info_failed''"
    "trace r' = [CallExchange cfg code, CallUserInfo tok]"
    by (auto simp add: Callback_profile_def error_redirect_def split: if_splits sum.splits)
  ultimately show ?thesis by auto
next
  case (Inr p)
  obtain ws' calls where p: "p = (ws', calls)" by (cases p)
  with Inr assms have r: "r = Callback_store L E hs ws' tok calls" by simp
  from Inr p have calls: "\<forall>x. CallSave x \<notin> set calls"
    and ok: "\<not> (\<exists>err. hasProfileScope (Scopes cfg) \<and> GetUser L E tok = Inl err)"
    by (auto simp add: Callback_profile_def split: if_splits sum.splits)
  show ?thesis unfolding r using calls ok Callback_store_errors by blast
qed

lemma Callback_error_codes:
  assumes "Values (fst (store_Get (store hs) req)) OAuthState = Some (StringValue st)"
    and "RequestURL req = Some u"
  shows "(Values_Get (ParseQuery L (RawQuery u)) ''state'' \<noteq> st
           \<longrightarrow> response (Callback L E h hs req) = error_redirect ''invalid_state'')
     \<and> (Values_Get (ParseQuery L (RawQuery u)) ''state'' = st
         \<and> Values_Get (ParseQuery L (RawQuery u)) ''code'' = []
           \<longrightarrow> response (Callback L E h hs req) = error_redirect ''missing_code'')
     \<and> (Values_Get (ParseQuery L (RawQuery u)) ''state'' = st
         \<and> Values_Get (ParseQuery L (RawQuery u)) ''code'' \<noteq> []
           \<longrightarrow> (\<forall>err. Exchange E (request_config L h (service hs) req)
                         (Values_Get (ParseQuery L (RawQuery u)) ''code'') = Inl err
                   \<longrightarrow> response (Callback L E h hs req)
                         = error_redirect ''token_exchange_failed'')
              \<and> (\<forall>tok. Exchange E (request_config L h (service hs) req)
                         (Values_Get (ParseQuery L (RawQuery u)) ''code'') = Inr tok
                       \<and> RefreshToken tok \<noteq> []
                   \<longrightarrow> (\<forall>err. hasProfileScope (Scopes (request_config L h (service hs) req))
                               \<and> GetUser L E tok = Inl err
                           \<longrightarrow> response (Callback L E h hs req)
                                 = error_redirect ''user_info_failed'')
                      \<and> (\<forall>s err. CallSave s \<in> set (trace (Callback L E h hs req))
                               \<and> Save E s = Some err
                           \<longrightarrow> response (Callback L E h hs req)
                                 = error_redirect ''session_save_failed'')))"
proof (intro conjI impI allI; (elim conjE)?)
  assume "Values_Get (ParseQuery L (RawQuery u)) ''state'' \<noteq> st"
  then show "response (Callback L E h hs req) = error_redirect ''invalid_state''"
    using assms by (simp add: Callback_def Let_def error_redirect_def)
next
  assume "Values_Get (ParseQuery L (RawQuery u)) ''state'' = st"
    "Values_Get (ParseQuery L (RawQuery u)) ''code'' = []"
  then show "response (Callback L E h hs req) = error_redirect ''missing_code''"
    using assms by (simp add: Callback_def Let_def error_redirect_def)
next
  fix err
  assume "Values_Get (ParseQuery L (RawQuery u)) ''state'' = st"
    "Values_Get (ParseQuery L (RawQuery u)) ''code'' \<noteq> []"
    "Exchange E (request_config L h (service hs) req)
       (Values_Get (ParseQuery L (RawQuery u)) ''code'') = Inl err"
  then show "response (Callback L E h hs req) = error_redirect ''token_exchange_failed''"
    using assms by (simp add: Callback_def Let_def error_redirect_def)
next
  fix tok err
  assume a: "Values_Get (ParseQuery L (RawQuery u)) ''state'' = st"
    "Values_Get (ParseQuery L (RawQuery u)) ''code'' \<noteq> []"
    "Exchange E (request_config L h (service hs) req)
       (Values_Get (ParseQuery L (RawQuery u)) ''code'') = Inr tok"
    "RefreshToken tok \<noteq> []"
    and b: "hasProfileScope (Scopes (request_config L h (service hs) req))"
      "GetUser L E tok = Inl err"
  from Callback_finish_errors [OF Callback_reaches_profile [OF assms a(1) refl a(2-4)]] b
  show "response (Callback L E h hs req) = error_redirect ''user_info_failed''"
    by blast
next
  fix tok s err
  assume a: "Values_Get (ParseQuery L (RawQuery u)) ''state'' = st"
    "Values_Get (ParseQuery L (RawQuery u)) ''code'' \<noteq> []"
    "Exchange E (request_config L h (service hs) req)
       (Values_Get (ParseQuery L (RawQuery u)) ''code'') = Inr tok"
    "RefreshToken tok \<noteq> []"
    and b: "CallSave s \<in> set (trace (Callback L E h hs req))" "Save E s = Some err"
  from Callback_finish_errors [OF Callback_reaches_profile [OF assms a(1) refl a(2-4)]] b
  show "response (Callback L E h hs req) = error_redirect ''session_save_failed''"
    by blast
qed

text \<open>
  C8 (amended). In \<open>Callback\<close> a missing or non-string state, a state mismatch, a
  missing code, a failed exchange, a failed profile fetch and a failed save of the
  session that \<open>Callback\<close> filled are each answered with the redirect that carries the
  code: \<open>missing_state\<close>, \<open>invalid_state\<close>, \<open>missing_code\<close>,
  \<open>token_exchange_failed\<close>, \<open>user_info_failed\<close>, \<open>session_save_failed\<close>. What
  \<open>Callback\<close> and \<open>Login\<close> return does not depend on the text of any error:
  replacing every error text of the environment and of the libraries changes nothing.
  A failed save in \<open>Login\<close> (also when \<open>Callback\<close> calls it for a token without
  refresh token) is answered with status 500 and the fixed text
  \<open>Internal Server Error\<close>, and a failed save in \<open>Logout\<close> with status 500: neither is
  a redirect.
\<close>

theorem Callback_errors_are_coded_redirects:
  "Callback (retext_lib f L) (retext_env f E) h hs req = Callback L E h hs req
   \<and> Login (retext_lib f L) (retext_env f E) h hs req = Login L E h hs req
   \<and> ((\<forall>v. Values (fst (store_Get (store hs) req)) OAuthState \<noteq> Some (StringValue v))
        \<longrightarrow> response (Callback L E h hs req) = error_redirect ''missing_state'')
   \<and> (\<forall>st u. Values (fst (store_Get (store hs) req)) OAuthState = Some (StringValue st)
          \<and> RequestURL req = Some u
        \<longrightarrow> (Values_Get (ParseQuery L (RawQuery u)) ''state'' \<noteq> st
               \<longrightarrow> response (Callback L E h hs req) = error_redirect ''invalid_state'')
          \<and> (Values_Get (ParseQuery L (RawQuery u)) ''state'' = st
              \<and> Values_Get (ParseQuery L (RawQuery u)) ''code'' = []
               \<longrightarrow> response (Callback L E h hs req) = error_redirect ''missing_code'')
          \<and> (Values_Get (ParseQuery L (RawQuery u)) ''state'' = st
              \<and> Values_Get (ParseQuery L (RawQuery u)) ''code'' \<noteq> []
               \<longrightarrow> (\<forall>err. Exchange E (request_config L h (service hs) req)
                             (Values_Get (ParseQuery L (RawQuery u)) ''code'') = Inl err
                       \<longrightarrow> response (Callback L E h hs req)
                             = error_redirect ''token_exchange_failed'')
                  \<and> (\<forall>tok. Exchange E (request_config L h (service hs) req)
                             (Values_Get (ParseQuery L (RawQuery u)) ''code'') = Inr tok
                           \<and> RefreshToken tok \<noteq> []
                       \<longrightarrow> (\<forall>err. hasProfileScope
                                     (Scopes (request_config L h (service hs) req))
                                   \<and> GetUser L E tok = Inl err
                               \<longrightarrow> response (Callback L E h hs req)
                                     = error_redirect ''user_info_failed'')
                          \<and> (\<forall>s err. CallSave s \<in> set (trace (Callback L E h hs req))
                                   \<and> Save E s = Some err
                               \<longrightarrow> response (Callback L E h hs req)
                                     = error_redirect ''session_save_failed''))))
   \<and> (\<forall>s err. CallSave s \<in> set (trace (Login L E h hs req)) \<and> Save E s = Some err
        \<longrightarrow> response (Login L E h hs req) = HttpError ''Internal Server Error'' 500)
   \<and> (\<forall>s err. CallSave s \<in> set (trace (Logout E hs req)) \<and> Save E s = Some err
        \<longrightarrow> is_status_500 (response (Logout E hs req)))"
proof -
  have login: "\<forall>s err. CallSave s \<in> set (trace (Login L E h hs req)) \<and> Save E s = Some err
        \<longrightarrow> response (Login L E h hs req) = HttpError ''Internal Server Error'' 500"
    by (auto simp add: Login_def Let_def split: sum.splits option.splits)
  have logout: "\<forall>s err. CallSave s \<in> set (trace (Logout E hs req)) \<and> Save E s = Some err
        \<longrightarrow> is_status_500 (response (Logout E hs req))"
    by (auto simp add: Logout_def Let_def is_status_500_def split: option.splits)
  show ?thesis
  proof (intro conjI)
    show "Callback (retext_lib f L) (retext_env f E) h hs req = Callback L E h hs req"
      by (rule Callback_retext)
    show "Login (retext_lib f L) (retext_env f E) h hs req = Login L E h hs req"
      by (rule Login_retext)
    show "(\<forall>v. Values (fst (store_Get (store hs) req)) OAuthState \<noteq> Some (StringValue v))
        \<longrightarrow> response (Callback L E h hs req) = error_redirect ''missing_state''"
      by (intro impI) (rule Callback_missing_state)
    show "\<forall>s err. CallSave s \<in> set (trace (Login L E h hs req)) \<and> Save E s = Some err
        \<longrightarrow> response (Login L E h hs req) = HttpError ''Internal Server Error'' 500"
      by (rule login)
    show "\<forall>s err. CallSave s \<in> set (trace (Logout E hs req)) \<and> Save E s = Some err
        \<longrightarrow> is_status_500 (response (Logout E hs req))"
      by (rule logout)
  qed (intro allI impI, elim conjE, rule Callback_error_codes, assumption+)
qed

theorem Callback_errors_are_coded_redirects_witness:
  "response (Callback test_lib failing_save_env (test_heap DefaultScopes) test_handlers
       test_callback_request) = error_redirect ''session_save_failed''
   \<and> response (Login test_lib failing_save_env (test_heap DefaultScopes) test_handlers
       test_callback_request) = HttpError ''Internal Server Error'' 500
   \<and> Callback (retext_lib (\<lambda>e. []) test_lib) (retext_env (\<lambda>e. []) failing_save_env)
        (test_heap DefaultScopes) test_handlers test_callback_request
     = Callback test_lib failing_save_env (test_heap DefaultScopes) test_handlers
        test_callback_request"
proof -
  note t = Callback_errors_are_coded_redirects [where L = test_lib and E = failing_save_env
      and h = "test_heap DefaultScopes" and hs = test_handlers and req = test_callback_request
      and f = "\<lambda>e. []"]
  have c: "trace (Callback test_lib failing_save_env (test_heap DefaultScopes) test_handlers
       test_callback_request)
     = [CallExchange (request_config test_lib (test_heap DefaultScopes) test_service
          test_callback_request) ''c1'',
        CallUserInfo (test_token ''rtok''),
        CallSave (session (Callback test_lib failing_save_env (test_heap DefaultScopes)
          test_handlers test_callback_request))]"
    by (simp add: eval_handlers eval_resolver eval_strings eval_fixtures)
  have l: "trace (Login test_lib failing_save_env (test_heap DefaultScopes) test_handlers
       test_callback_request)
     = [CallRandRead,
        CallSave (session (Login test_lib failing_save_env (test_heap DefaultScopes)
          test_handlers test_callback_request))]"
    by (simp add: eval_handlers eval_resolver eval_strings eval_fixtures)
  have s: "\<And>x. Save failing_save_env x = Some save_error"
    by (simp add: failing_save_env_def)
  have st: "Values (fst (store_Get (store test_handlers) test_callback_request)) OAuthState
              = Some (StringValue ''s123'')"
    and u: "RequestURL test_callback_request = Some (test_url ''state=s123&code=c1'')"
    and q: "Values_Get (ParseQuery test_lib (RawQuery (test_url ''state=s123&code=c1'')))
              ''state'' = ''s123''"
      "Values_Get (ParseQuery test_lib (RawQuery (test_url ''state=s123&code=c1'')))
              ''code'' = ''c1''"
    and x: "Exchange failing_save_env
              (request_config test_lib (test_heap DefaultScopes) (service test_handlers)
                 test_callback_request) ''c1'' = Inr (test_token ''rtok'')"
    and rt: "RefreshToken (test_token ''rtok'') \<noteq> []"
    by (simp_all add: store_Get_def eval_strings eval_fixtures)
  from t have codes: "\<forall>s err. CallSave s \<in> set (trace (Callback test_lib failing_save_env
        (test_heap DefaultScopes) test_handlers test_callback_request))
      \<and> Save failing_save_env s = Some err
      \<longrightarrow> response (Callback test_lib failing_save_env (test_heap DefaultScopes) test_handlers
            test_callback_request) = error_redirect ''session_save_failed''"
    using st u q x rt by (elim conjE) (metis list.distinct(1))
  from codes c s have 1: "response (Callback test_lib failing_save_env
      (test_heap DefaultScopes) test_handlers test_callback_request)
        = error_redirect ''session_save_failed''"
    by (metis list.set_intros(1,2))
  from t l s have 2: "response (Login test_lib failing_save_env (test_heap DefaultScopes)
      test_handlers test_callback_request) = HttpError ''Internal Server Error'' 500"
    by (metis list.set_intros(1,2))
  from t 1 2 show ?thesis by blast
qed

text \<open>
  C8 as stated fails in \<open>Logout\<close>: when the save fails, the answer is not a redirect
  but a 500 whose body is the text of the save error, whatever that text is.
\<close>

theorem Logout_error_text_counterexample:
  "Save failing_save_env
     ((fst (store_Get (store test_handlers) (test_request [] [] test_cookie)))
        \<lparr>MaxAge := - 1\<rparr>)
     = Some ''securecookie: the value is too long''
   \<and> response (Logout failing_save_env test_handlers (test_request [] [] test_cookie))
     = HttpError ''securecookie: the value is too long'' 500
   \<and> response (Logout (retext_env (\<lambda>e. ''other text'') failing_save_env) test_handlers
        (test_request [] [] test_cookie))
     = HttpError ''other text'' 500"
  by (simp add: eval_handlers eval_strings eval_fixtures retext_env_def Let_def)

end
